theory Spec2Isabelle
  imports Complex_Main
begin

section \<open>Values: time, decimals and money\<close>

text \<open>
  An instant (Go's \<open>time.Time\<close>) is a natural number. Every call of \<open>time.Now()\<close> in the
  source becomes an argument of the function that makes the call, so no relation between
  successive readings of the clock is assumed.
\<close>

type_synonym time = nat

text \<open>
  \<open>decimal.Decimal\<close> (github.com/shopspring/decimal, an external library) is an
  arbitrary-precision coefficient and a power of ten: the number \<open>value * 10 ^ exp\<close>.
  The library's \<open>int32\<close> exponent is an unbounded \<open>int\<close> here.
\<close>

datatype Decimal = Decimal (d_value: int) (d_exp: int)

text \<open>\<open>big.Int.Quo\<close>: the quotient truncated towards zero.\<close>

definition big_Quo :: "int \<Rightarrow> int \<Rightarrow> int" where
  "big_Quo a b = sgn a * sgn b * (\<bar>a\<bar> div \<bar>b\<bar>)"

text \<open>
  \<open>Decimal.rescale\<close>: the same number (truncated when the exponent grows) at exponent \<open>e\<close>.
\<close>

definition dec_rescale :: "Decimal \<Rightarrow> int \<Rightarrow> Decimal" where
  "dec_rescale d e =
     (if d_exp d = e then d
      else if e > d_exp d then Decimal (big_Quo (d_value d) (10 ^ nat (e - d_exp d))) e
      else Decimal (d_value d * 10 ^ nat (d_exp d - e)) e)"

text \<open>\<open>decimal.RescalePair\<close>: both operands at the smaller of the two exponents.\<close>

definition dec_RescalePair :: "Decimal \<Rightarrow> Decimal \<Rightarrow> Decimal \<times> Decimal" where
  "dec_RescalePair d1 d2 =
     (if d_exp d1 < d_exp d2 then (d1, dec_rescale d2 (d_exp d1))
      else if d_exp d1 > d_exp d2 then (dec_rescale d1 (d_exp d2), d2)
      else (d1, d2))"

definition dec_Add :: "Decimal \<Rightarrow> Decimal \<Rightarrow> Decimal" where
  "dec_Add d d2 =
     (case dec_RescalePair d d2 of (rd, rd2) \<Rightarrow> Decimal (d_value rd + d_value rd2) (d_exp rd))"

definition dec_Sub :: "Decimal \<Rightarrow> Decimal \<Rightarrow> Decimal" where
  "dec_Sub d d2 =
     (case dec_RescalePair d d2 of (rd, rd2) \<Rightarrow> Decimal (d_value rd - d_value rd2) (d_exp rd))"

text \<open>\<open>Decimal.Cmp\<close>: \<open>-1\<close>, \<open>0\<close> or \<open>1\<close>, comparing the coefficients at a common exponent.\<close>

definition dec_Cmp :: "Decimal \<Rightarrow> Decimal \<Rightarrow> int" where
  "dec_Cmp d d2 =
     (case dec_RescalePair d d2 of (rd, rd2) \<Rightarrow>
        (if d_value rd < d_value rd2 then - 1 else if d_value rd = d_value rd2 then 0 else 1))"

definition dec_Equal :: "Decimal \<Rightarrow> Decimal \<Rightarrow> bool" where
  "dec_Equal d d2 = (dec_Cmp d d2 = 0)"

definition dec_Sign :: "Decimal \<Rightarrow> int" where
  "dec_Sign d = sgn (d_value d)"

definition dec_IsZero :: "Decimal \<Rightarrow> bool" where
  "dec_IsZero d = (dec_Sign d = 0)"

definition dec_IsPositive :: "Decimal \<Rightarrow> bool" where
  "dec_IsPositive d = (dec_Sign d = 1)"

definition dec_IsNegative :: "Decimal \<Rightarrow> bool" where
  "dec_IsNegative d = (dec_Sign d = - 1)"

text \<open>The number a decimal stands for; used in statements only, never by the code.\<close>

definition dec_val :: "Decimal \<Rightarrow> rat" where
  "dec_val d = of_int (d_value d) * 10 powi (d_exp d)"

text \<open>\<open>vo.Money\<close> wraps one decimal.\<close>

datatype Money = Money (amount: Decimal)

datatype error =
    ErrInvalidTransactionAmount
  | ErrMissingAccountID
  | ErrSameAccountTransfer
  | ErrInvalidTransactionStatus
  | ErrTransactionAlreadyInProgress
  | ErrTransactionNotFound
  | ErrTransactionCannotBeConfirmed
  | ErrTransactionCannotBeCancelled
  | ErrAccountNotFound
  | ErrInsufficientBalance
  | ErrAccountAlreadyExists
  | ErrAccountCannotTransact
  | ErrInvalidInput
  | ErrUnauthorized
  | ErrInternalError
  | ErrInvalidAccountID
  | ErrInvalidTransactionID
  | ErrUnsupportedType
  | ValidationError string string
  | BusinessError string string
  | Errorf string error string
  | ErrCacheMiss
  | ErrCacheUnavailable

text \<open>
  \<open>ValidationError field message\<close> and \<open>BusinessError code message\<close> are the two custom
  error types. \<open>Errorf before e after\<close> is \<open>fmt.Errorf\<close> with one \<open>%w\<close> verb: the text
  before the wrapped error, the error, and the text after it. The last two constructors
  are what the cache reports (see the cache below).

  \<open>errors.Is\<close> follows the chain of wrapped errors.
\<close>

fun errors_Is :: "error \<Rightarrow> error \<Rightarrow> bool" where
  "errors_Is (Errorf p e s) target = (Errorf p e s = target \<or> errors_Is e target)"
| "errors_Is e target = (e = target)"

definition Money_IsZero :: "Money \<Rightarrow> bool" where
  "Money_IsZero m = dec_IsZero (amount m)"

definition Money_IsPositive :: "Money \<Rightarrow> bool" where
  "Money_IsPositive m = dec_IsPositive (amount m)"

definition Money_IsNegative :: "Money \<Rightarrow> bool" where
  "Money_IsNegative m = dec_IsNegative (amount m)"

text \<open>\<open>Add\<close> and \<open>Subtract\<close> return a value and an error; the error is always \<open>nil\<close>.\<close>

definition Money_Add :: "Money \<Rightarrow> Money \<Rightarrow> Money \<times> error option" where
  "Money_Add m other = (Money (dec_Add (amount m) (amount other)), None)"

definition Money_Subtract :: "Money \<Rightarrow> Money \<Rightarrow> Money \<times> error option" where
  "Money_Subtract m other = (Money (dec_Sub (amount m) (amount other)), None)"

definition Money_Equal :: "Money \<Rightarrow> Money \<Rightarrow> bool" where
  "Money_Equal m other = dec_Equal (amount m) (amount other)"

definition Money_val :: "Money \<Rightarrow> rat" where
  "Money_val m = dec_val (amount m)"

section \<open>Account\<close>

type_synonym AccountID = string
type_synonym AccountStatus = string

definition AccountStatusActive :: AccountStatus where
  "AccountStatusActive = ''ACTIVE''"

definition AccountStatusInactive :: AccountStatus where
  "AccountStatusInactive = ''INACTIVE''"

definition AccountStatusSuspended :: AccountStatus where
  "AccountStatusSuspended = ''SUSPENDED''"

definition AccountStatus_IsValid :: "AccountStatus \<Rightarrow> bool" where
  "AccountStatus_IsValid s =
     (s = AccountStatusActive \<or> s = AccountStatusInactive \<or> s = AccountStatusSuspended)"

definition AccountStatus_CanTransact :: "AccountStatus \<Rightarrow> bool" where
  "AccountStatus_CanTransact s = (s = AccountStatusActive)"

definition AccountStatus_CanTransitionTo :: "AccountStatus \<Rightarrow> AccountStatus \<Rightarrow> bool" where
  "AccountStatus_CanTransitionTo s target =
     (if s = AccountStatusActive
        then target = AccountStatusInactive \<or> target = AccountStatusSuspended
      else if s = AccountStatusInactive
        then target = AccountStatusActive \<or> target = AccountStatusSuspended
      else if s = AccountStatusSuspended
        then target = AccountStatusActive \<or> target = AccountStatusInactive
      else False)"

record Account =
  acc_ID :: AccountID
  AccountName :: string
  Balance :: Money
  acc_Status :: AccountStatus
  acc_CreatedAt :: time
  UpdatedAt :: time

text \<open>
  The methods of \<open>*Account\<close> mutate their receiver and return an error. Here each returns
  the error (\<open>None\<close> for \<open>nil\<close>) together with the receiver as the call leaves it; \<open>now\<close> is
  what \<open>time.Now()\<close> returns inside the call.
\<close>

definition Account_Debit :: "Account \<Rightarrow> Money \<Rightarrow> time \<Rightarrow> error option \<times> Account" where
  "Account_Debit a amt now =
     (if Money_IsZero amt \<or> \<not> Money_IsPositive amt then (Some ErrInvalidTransactionAmount, a)
      else case Money_Subtract (Balance a) amt of
        (newBalance, Some err) \<Rightarrow> (Some err, a)
      | (newBalance, None) \<Rightarrow>
          if dec_IsNegative (amount newBalance) then (Some ErrInsufficientBalance, a)
          else (None, a\<lparr>Balance := newBalance, UpdatedAt := now\<rparr>))"

definition Account_Credit :: "Account \<Rightarrow> Money \<Rightarrow> time \<Rightarrow> error option \<times> Account" where
  "Account_Credit a amt now =
     (if Money_IsZero amt \<or> \<not> Money_IsPositive amt then (Some ErrInvalidTransactionAmount, a)
      else case Money_Add (Balance a) amt of
        (newBalance, Some err) \<Rightarrow> (Some err, a)
      | (newBalance, None) \<Rightarrow> (None, a\<lparr>Balance := newBalance, UpdatedAt := now\<rparr>))"

definition Account_SetStatus :: "Account \<Rightarrow> AccountStatus \<Rightarrow> time \<Rightarrow> error option \<times> Account" where
  "Account_SetStatus a status now =
     (if \<not> AccountStatus_IsValid status
        then (Some (ValidationError ''status'' (''invalid account status: '' @ status)), a)
      else if \<not> AccountStatus_CanTransitionTo (acc_Status a) status
        then (Some (BusinessError ''INVALID_STATUS_TRANSITION''
                (''cannot transition from '' @ acc_Status a @ '' to '' @ status)), a)
      else (None, a\<lparr>acc_Status := status, UpdatedAt := now\<rparr>))"

definition Account_CanTransact :: "Account \<Rightarrow> bool" where
  "Account_CanTransact a = AccountStatus_CanTransact (acc_Status a)"

section \<open>Transaction\<close>

type_synonym TransactionID = string
type_synonym TransactionType = string
type_synonym TransactionStatus = string

definition TransactionTypeDebit :: TransactionType where
  "TransactionTypeDebit = ''DEBIT''"

definition TransactionTypeCredit :: TransactionType where
  "TransactionTypeCredit = ''CREDIT''"

definition TransactionTypeTransfer :: TransactionType where
  "TransactionTypeTransfer = ''TRANSFER''"

definition TransactionStatusPending :: TransactionStatus where
  "TransactionStatusPending = ''PENDING''"

definition TransactionStatusCompleted :: TransactionStatus where
  "TransactionStatusCompleted = ''COMPLETED''"

definition TransactionStatusFailed :: TransactionStatus where
  "TransactionStatusFailed = ''FAILED''"

definition TransactionStatusCancelled :: TransactionStatus where
  "TransactionStatusCancelled = ''CANCELLED''"

definition TransactionStatus_IsValid :: "TransactionStatus \<Rightarrow> bool" where
  "TransactionStatus_IsValid s =
     (s = TransactionStatusPending \<or> s = TransactionStatusCompleted \<or>
      s = TransactionStatusFailed \<or> s = TransactionStatusCancelled)"

definition TransactionStatus_IsPending :: "TransactionStatus \<Rightarrow> bool" where
  "TransactionStatus_IsPending s = (s = TransactionStatusPending)"

definition TransactionStatus_IsCompleted :: "TransactionStatus \<Rightarrow> bool" where
  "TransactionStatus_IsCompleted s = (s = TransactionStatusCompleted)"

definition TransactionStatus_CanTransitionTo :: "TransactionStatus \<Rightarrow> TransactionStatus \<Rightarrow> bool" where
  "TransactionStatus_CanTransitionTo s target =
     (if s = TransactionStatusPending
        then target = TransactionStatusCompleted \<or> target = TransactionStatusFailed \<or>
             target = TransactionStatusCancelled
      else if s = TransactionStatusCompleted then False
      else if s = TransactionStatusFailed then target = TransactionStatusCancelled
      else if s = TransactionStatusCancelled then False
      else False)"

record Transaction =
  txn_ID :: TransactionID
  FromAccountID :: "AccountID option"
  ToAccountID :: "AccountID option"
  TransactionType :: TransactionType
  Amount :: Money
  Description :: string
  Reference :: string
  txn_Status :: TransactionStatus
  txn_CreatedAt :: time
  CompletedAt :: "time option"

definition AccountID_IsEmpty :: "AccountID \<Rightarrow> bool" where
  "AccountID_IsEmpty aid = (aid = [])"

text \<open>
  \<open>strings.TrimSpace\<close> on the ASCII white space (tab, line feed, vertical tab, form feed,
  carriage return, space); the white space Unicode adds beyond ASCII is left in place.
\<close>

definition isSpace :: "char \<Rightarrow> bool" where
  "isSpace c = ((of_char c :: nat) \<in> {9, 10, 11, 12, 13, 32})"

definition TrimSpace :: "string \<Rightarrow> string" where
  "TrimSpace s = rev (dropWhile isSpace (rev (dropWhile isSpace s)))"

text \<open>
  The factories. \<open>newID\<close> is what \<open>vo.NewTransactionID()\<close> generates for the call and \<open>now\<close>
  what \<open>time.Now()\<close> returns. A \<open>nil\<close> transaction with an error is \<open>Inl\<close>.
\<close>

definition NewDebitTransaction ::
  "AccountID \<Rightarrow> Money \<Rightarrow> string \<Rightarrow> string \<Rightarrow> TransactionID \<Rightarrow> time \<Rightarrow> error + Transaction" where
  "NewDebitTransaction fromAccountID amt description reference newID now =
     (if AccountID_IsEmpty fromAccountID
        then Inl (ValidationError ''fromAccountID''
               ''from account ID is required for debit transaction'')
      else if Money_IsZero amt then Inl ErrInvalidTransactionAmount
      else Inr \<lparr>txn_ID = newID, FromAccountID = Some fromAccountID, ToAccountID = None,
             TransactionType = TransactionTypeDebit, Amount = amt,
             Description = TrimSpace description, Reference = TrimSpace reference,
             txn_Status = TransactionStatusPending, txn_CreatedAt = now, CompletedAt = None\<rparr>)"

definition NewCreditTransaction ::
  "AccountID \<Rightarrow> Money \<Rightarrow> string \<Rightarrow> string \<Rightarrow> TransactionID \<Rightarrow> time \<Rightarrow> error + Transaction" where
  "NewCreditTransaction toAccountID amt description reference newID now =
     (if AccountID_IsEmpty toAccountID
        then Inl (ValidationError ''toAccountID''
               ''to account ID is required for credit transaction'')
      else if Money_IsZero amt then Inl ErrInvalidTransactionAmount
      else Inr \<lparr>txn_ID = newID, FromAccountID = None, ToAccountID = Some toAccountID,
             TransactionType = TransactionTypeCredit, Amount = amt,
             Description = TrimSpace description, Reference = TrimSpace reference,
             txn_Status = TransactionStatusPending, txn_CreatedAt = now, CompletedAt = None\<rparr>)"

definition NewTransferTransaction ::
  "AccountID \<Rightarrow> AccountID \<Rightarrow> Money \<Rightarrow> string \<Rightarrow> string \<Rightarrow> TransactionID \<Rightarrow> time
     \<Rightarrow> error + Transaction" where
  "NewTransferTransaction fromAccountID toAccountID amt description reference newID now =
     (if AccountID_IsEmpty fromAccountID
        then Inl (ValidationError ''fromAccountID''
               ''from account ID is required for transfer transaction'')
      else if AccountID_IsEmpty toAccountID
        then Inl (ValidationError ''toAccountID''
               ''to account ID is required for transfer transaction'')
      else if fromAccountID = toAccountID then Inl ErrSameAccountTransfer
      else if Money_IsZero amt then Inl ErrInvalidTransactionAmount
      else Inr \<lparr>txn_ID = newID, FromAccountID = Some fromAccountID,
             ToAccountID = Some toAccountID,
             TransactionType = TransactionTypeTransfer, Amount = amt,
             Description = TrimSpace description, Reference = TrimSpace reference,
             txn_Status = TransactionStatusPending, txn_CreatedAt = now, CompletedAt = None\<rparr>)"

text \<open>The methods of \<open>*Transaction\<close>, like those of \<open>*Account\<close>: the error and the receiver.\<close>

definition Transaction_MarkAsCompleted :: "Transaction \<Rightarrow> time \<Rightarrow> error option \<times> Transaction" where
  "Transaction_MarkAsCompleted t now =
     (if \<not> TransactionStatus_CanTransitionTo (txn_Status t) TransactionStatusCompleted
        then (Some (BusinessError ''INVALID_STATUS_TRANSITION''
                (''cannot transition from '' @ txn_Status t @ '' to COMPLETED'')), t)
      else (None, t\<lparr>txn_Status := TransactionStatusCompleted, CompletedAt := Some now\<rparr>))"

definition Transaction_MarkAsFailed :: "Transaction \<Rightarrow> error option \<times> Transaction" where
  "Transaction_MarkAsFailed t =
     (if \<not> TransactionStatus_CanTransitionTo (txn_Status t) TransactionStatusFailed
        then (Some (BusinessError ''INVALID_STATUS_TRANSITION''
                (''cannot transition from '' @ txn_Status t @ '' to FAILED'')), t)
      else (None, t\<lparr>txn_Status := TransactionStatusFailed\<rparr>))"

definition Transaction_MarkAsCancelled :: "Transaction \<Rightarrow> error option \<times> Transaction" where
  "Transaction_MarkAsCancelled t =
     (if \<not> TransactionStatus_CanTransitionTo (txn_Status t) TransactionStatusCancelled
        then (Some (BusinessError ''INVALID_STATUS_TRANSITION''
                (''cannot transition from '' @ txn_Status t @ '' to CANCELLED'')), t)
      else (None, t\<lparr>txn_Status := TransactionStatusCancelled\<rparr>))"

definition Transaction_SetStatus ::
  "Transaction \<Rightarrow> TransactionStatus \<Rightarrow> time \<Rightarrow> error option \<times> Transaction" where
  "Transaction_SetStatus t status now =
     (if \<not> TransactionStatus_IsValid status
        then (Some (ValidationError ''status'' (''invalid transaction status: '' @ status)), t)
      else if \<not> TransactionStatus_CanTransitionTo (txn_Status t) status
        then (Some (BusinessError ''INVALID_STATUS_TRANSITION''
                (''cannot transition from '' @ txn_Status t @ '' to '' @ status)), t)
      else if TransactionStatus_IsCompleted status
        then (None, t\<lparr>txn_Status := status, CompletedAt := Some now\<rparr>)
      else (None, t\<lparr>txn_Status := status\<rparr>))"

text \<open>
  The transition tables as the specification lists them (sections 4.2 and 4.3), to compare
  the two \<open>CanTransitionTo\<close> with.
\<close>

definition account_statuses :: "AccountStatus list" where
  "account_statuses = [''ACTIVE'', ''INACTIVE'', ''SUSPENDED'']"

definition spec_account_transitions :: "(AccountStatus \<times> AccountStatus) list" where
  "spec_account_transitions =
     [(''ACTIVE'', ''INACTIVE''), (''ACTIVE'', ''SUSPENDED''),
      (''INACTIVE'', ''ACTIVE''), (''INACTIVE'', ''SUSPENDED''),
      (''SUSPENDED'', ''ACTIVE''), (''SUSPENDED'', ''INACTIVE'')]"

definition transaction_statuses :: "TransactionStatus list" where
  "transaction_statuses = [''PENDING'', ''COMPLETED'', ''FAILED'', ''CANCELLED'']"

definition spec_transaction_transitions :: "(TransactionStatus \<times> TransactionStatus) list" where
  "spec_transaction_transitions =
     [(''PENDING'', ''COMPLETED''), (''PENDING'', ''FAILED''), (''PENDING'', ''CANCELLED''),
      (''FAILED'', ''CANCELLED'')]"

section \<open>Transaction identifiers\<close>

definition isDigit :: "char \<Rightarrow> bool" where
  "isDigit c = (48 \<le> (of_char c :: nat) \<and> (of_char c :: nat) \<le> 57)"

text \<open>The number a string of decimal digits denotes.\<close>

definition digits_val :: "string \<Rightarrow> int" where
  "digits_val s = foldl (\<lambda>n c. 10 * n + (of_char c - 48)) 0 s"

definition isLeap :: "int \<Rightarrow> bool" where
  "isLeap year = (year mod 4 = 0 \<and> (year mod 100 \<noteq> 0 \<or> year mod 400 = 0))"

definition daysIn :: "int \<Rightarrow> int \<Rightarrow> int" where
  "daysIn month year =
     (if month = 2 \<and> isLeap year then 29
      else [31, 28, 31, 30, 31, 30, 31, 31, 30, 31, 30, 31] ! nat (month - 1))"

text \<open>
  Whether \<open>time.Parse("20060102150405", ts)\<close> returns no error, for the fourteen bytes
  \<open>validateTransactionID\<close> passes to it: fourteen digits that read as year, month, day,
  hour, minute and second in range, the day within its month.
\<close>

definition time_Parse_ok :: "string \<Rightarrow> bool" where
  "time_Parse_ok ts =
     (length ts = 14 \<and> list_all isDigit ts \<and>
      (let year = digits_val (take 4 ts);
           month = digits_val (take 2 (drop 4 ts));
           day = digits_val (take 2 (drop 6 ts));
           hour = digits_val (take 2 (drop 8 ts));
           minute = digits_val (take 2 (drop 10 ts));
           second = digits_val (take 2 (drop 12 ts))
       in 1 \<le> month \<and> month \<le> 12 \<and> hour < 24 \<and> minute < 60 \<and> second < 60 \<and>
          1 \<le> day \<and> day \<le> daysIn month year))"

text \<open>
  Whether \<open>strconv.ParseInt(s, 10, 64)\<close> returns no error: an optional sign, at least one
  digit and nothing else, and a value that fits 64 signed bits.
\<close>

definition ParseInt_ok :: "string \<Rightarrow> bool" where
  "ParseInt_ok s =
     (case s of
        [] \<Rightarrow> False
      | c # cs \<Rightarrow>
          (let neg = (c = CHR ''-'');
               ds = (if c = CHR ''+'' \<or> c = CHR ''-'' then cs else s)
           in ds \<noteq> [] \<and> list_all isDigit ds \<and>
              (if neg then digits_val ds \<le> 2 ^ 63 else digits_val ds < 2 ^ 63)))"

definition HasPrefix :: "string \<Rightarrow> string \<Rightarrow> bool" where
  "HasPrefix s pre = (take (length pre) s = pre)"

definition validateTransactionID :: "string \<Rightarrow> error option" where
  "validateTransactionID tid =
     (if tid = [] then Some ErrInvalidTransactionID
      else if \<not> HasPrefix tid ''TXN'' then Some ErrInvalidTransactionID
      else if length tid < 23 then Some ErrInvalidTransactionID
      else if length tid \<ge> 17 \<and> \<not> time_Parse_ok (take 14 (drop 3 tid))
        then Some ErrInvalidTransactionID
      else if length tid > 17 \<and> \<not> ParseInt_ok (drop 17 tid) then Some ErrInvalidTransactionID
      else None)"

definition NewTransactionIDFromString :: "string \<Rightarrow> error + TransactionID" where
  "NewTransactionIDFromString tid =
     (case validateTransactionID tid of Some err \<Rightarrow> Inl err | None \<Rightarrow> Inr tid)"

section \<open>The collaborators: stores and cache\<close>

text \<open>
  \<open>dto.TransactionResponse\<close>, what \<open>Confirm\<close> returns and caches. Its Amount is the
  \<open>float64\<close> that \<open>InexactFloat64\<close> computes from the decimal; the decimal itself stands
  for it here, so two responses equal here are equal in the program.
\<close>

record TransactionResponse =
  r_ID :: string
  r_FromAccountID :: "string option"
  r_ToAccountID :: "string option"
  r_TransactionType :: string
  r_Amount :: Decimal
  r_Description :: string
  r_Reference :: string
  r_Status :: string
  r_CreatedAt :: time
  r_CompletedAt :: "time option"

definition ToResponse :: "Transaction \<Rightarrow> TransactionResponse" where
  "ToResponse transaction =
     \<lparr>r_ID = txn_ID transaction,
      r_FromAccountID = FromAccountID transaction,
      r_ToAccountID = ToAccountID transaction,
      r_TransactionType = TransactionType transaction,
      r_Amount = amount (Amount transaction),
      r_Description = Description transaction,
      r_Reference = Reference transaction,
      r_Status = txn_Status transaction,
      r_CreatedAt = txn_CreatedAt transaction,
      r_CompletedAt = CompletedAt transaction\<rparr>"

text \<open>
  Modelled from the spec: the \<open>infra.CacheService\<close> interface (package
  \<open>internal/domain/infra\<close>) and its implementation are not among the sources. Section 6
  gives \<open>Get(key) \<rightarrow> value | miss\<close>, \<open>Set(key, value, ttl) \<rightarrow> ok\<close> and
  \<open>Delete(key) \<rightarrow> ok\<close>, and section 7 lets the cache be unavailable. The cache is a flag
  (whether it answers) and its entries, the latest \<open>Set\<close> first; an entry is a response or
  the value of a lock. Expiry after the time to live is not modelled.
\<close>

datatype cache_value = CachedResponse TransactionResponse | CachedLock time

record Cache =
  cache_up :: bool
  cache_entries :: "(string \<times> cache_value) list"

definition cache_Set :: "Cache \<Rightarrow> string \<Rightarrow> cache_value \<Rightarrow> error option \<times> Cache" where
  "cache_Set c key v =
     (if cache_up c
      then (None, c\<lparr>cache_entries := (key, v) # filter (\<lambda>kv. fst kv \<noteq> key) (cache_entries c)\<rparr>)
      else (Some ErrCacheUnavailable, c))"

definition cache_Delete :: "Cache \<Rightarrow> string \<Rightarrow> error option \<times> Cache" where
  "cache_Delete c key =
     (if cache_up c
      then (None, c\<lparr>cache_entries := filter (\<lambda>kv. fst kv \<noteq> key) (cache_entries c)\<rparr>)
      else (Some ErrCacheUnavailable, c))"

text \<open>
  \<open>cache.Get(ctx, key, &cachedResult)\<close> with a \<open>dto.TransactionResponse\<close> to fill: the
  response under the key, or an error (\<open>None\<close>) when the cache is down, the key is absent
  or its value is not a response.
\<close>

definition cache_Get_response :: "Cache \<Rightarrow> string \<Rightarrow> TransactionResponse option" where
  "cache_Get_response c key =
     (if cache_up c
      then (case map_of (cache_entries c) key of
              Some (CachedResponse r) \<Rightarrow> Some r
            | _ \<Rightarrow> None)
      else None)"

text \<open>
  The stores behind \<open>repository.AccountRepository\<close> and \<open>repository.TransactionRepository\<close>
  are tables of rows. \<open>GetByID\<close> is the first row with the identifier, \<open>Update\<close> rewrites
  that row and reports the not-found error when there is none (section 6, and the GORM
  implementations). Storage failures other than a missing row are not modelled.
\<close>

definition accountRepo_GetByID :: "Account list \<Rightarrow> AccountID \<Rightarrow> error + Account" where
  "accountRepo_GetByID rows aid =
     (case find (\<lambda>a. acc_ID a = aid) rows of
        None \<Rightarrow> Inl ErrAccountNotFound
      | Some a \<Rightarrow> Inr a)"

fun replace_first :: "('a \<Rightarrow> bool) \<Rightarrow> 'a \<Rightarrow> 'a list \<Rightarrow> 'a list" where
  "replace_first P y [] = []"
| "replace_first P y (x # xs) = (if P x then y # xs else x # replace_first P y xs)"

definition accountRepo_Update :: "Account list \<Rightarrow> Account \<Rightarrow> error option \<times> Account list" where
  "accountRepo_Update rows account =
     (case find (\<lambda>a. acc_ID a = acc_ID account) rows of
        None \<Rightarrow> (Some ErrAccountNotFound, rows)
      | Some _ \<Rightarrow> (None, replace_first (\<lambda>a. acc_ID a = acc_ID account) account rows))"

definition transactionRepo_GetByID :: "Transaction list \<Rightarrow> TransactionID \<Rightarrow> error + Transaction" where
  "transactionRepo_GetByID rows tid =
     (case find (\<lambda>t. txn_ID t = tid) rows of
        None \<Rightarrow> Inl ErrTransactionNotFound
      | Some t \<Rightarrow> Inr t)"

definition transactionRepo_Update ::
  "Transaction list \<Rightarrow> Transaction \<Rightarrow> error option \<times> Transaction list" where
  "transactionRepo_Update rows transaction =
     (case find (\<lambda>t. txn_ID t = txn_ID transaction) rows of
        None \<Rightarrow> (Some ErrTransactionNotFound, rows)
      | Some _ \<Rightarrow> (None, replace_first (\<lambda>t. txn_ID t = txn_ID transaction) transaction rows))"

text \<open>What a use case works on: the two stores and the cache.\<close>

record World =
  accounts :: "Account list"
  transactions :: "Transaction list"
  cache :: Cache

text \<open>The instants \<open>time.Now()\<close> returns at the places one confirmation may call it.\<close>

record Clock =
  t_lock :: time
  t_debit :: time
  t_credit :: time
  t_rollback :: time
  t_mark :: time

section \<open>Processing a transaction\<close>

text \<open>
  The \<open>process...\<close> functions work on the account store and return their error with the
  store as they leave it. An account loaded by \<open>GetByID\<close> is a copy in memory; only
  \<open>Update\<close> writes it back.
\<close>

definition processDebitTransaction ::
  "Account list \<Rightarrow> Transaction \<Rightarrow> time \<Rightarrow> error option \<times> Account list" where
  "processDebitTransaction rows transaction now =
     (case FromAccountID transaction of
        None \<Rightarrow> (Some ErrMissingAccountID, rows)
      | Some fromID \<Rightarrow>
          (case accountRepo_GetByID rows fromID of
             Inl err \<Rightarrow> (Some ErrAccountNotFound, rows)
           | Inr account \<Rightarrow>
               if \<not> Account_CanTransact account then (Some ErrAccountCannotTransact, rows)
               else (case Account_Debit account (Amount transaction) now of
                       (Some err, account') \<Rightarrow> (Some err, rows)
                     | (None, account') \<Rightarrow> accountRepo_Update rows account')))"

definition processCreditTransaction ::
  "Account list \<Rightarrow> Transaction \<Rightarrow> time \<Rightarrow> error option \<times> Account list" where
  "processCreditTransaction rows transaction now =
     (case ToAccountID transaction of
        None \<Rightarrow> (Some ErrMissingAccountID, rows)
      | Some toID \<Rightarrow>
          (case accountRepo_GetByID rows toID of
             Inl err \<Rightarrow> (Some ErrAccountNotFound, rows)
           | Inr account \<Rightarrow>
               if \<not> Account_CanTransact account then (Some ErrAccountCannotTransact, rows)
               else (case Account_Credit account (Amount transaction) now of
                       (Some err, account') \<Rightarrow> (Some err, rows)
                     | (None, account') \<Rightarrow> accountRepo_Update rows account')))"

text \<open>
  \<open>processTransferTransaction\<close> from the credit on (the source's lines 588 to 604), given
  the source account as the debit left it and what \<open>toAccount.Credit\<close> returned. The
  result is the error, the store, and the two accounts in memory at the return.
\<close>

definition processTransfer_afterDebit ::
  "Account list \<Rightarrow> Account \<Rightarrow> error option \<times> Account \<Rightarrow> Money \<Rightarrow> time
     \<Rightarrow> error option \<times> Account list \<times> Account \<times> Account" where
  "processTransfer_afterDebit rows fromAccount credited amt now_rollback =
     (case credited of
        (Some err, toAccount) \<Rightarrow>
          (Some (Errorf ''failed to credit to account: '' err []), rows,
           snd (Account_Credit fromAccount amt now_rollback), toAccount)
      | (None, toAccount) \<Rightarrow>
          (case accountRepo_Update rows fromAccount of
             (Some err, rows1) \<Rightarrow>
               (Some (Errorf ''failed to update from account: '' err []), rows1,
                fromAccount, toAccount)
           | (None, rows1) \<Rightarrow>
               (case accountRepo_Update rows1 toAccount of
                  (Some err, rows2) \<Rightarrow>
                    (Some (Errorf ''failed to update to account: '' err []), rows2,
                     fromAccount, toAccount)
                | (None, rows2) \<Rightarrow> (None, rows2, fromAccount, toAccount))))"

text \<open>
  The whole of \<open>processTransferTransaction\<close>, with the accounts in memory at the return
  (once both are loaded) beside the error and the store.
\<close>

definition processTransfer_inMemory ::
  "Account list \<Rightarrow> Transaction \<Rightarrow> Clock
     \<Rightarrow> error option \<times> Account list \<times> (Account \<times> Account) option" where
  "processTransfer_inMemory rows transaction ck =
     (case (FromAccountID transaction, ToAccountID transaction) of
        (Some fromID, Some toID) \<Rightarrow>
          (case accountRepo_GetByID rows fromID of
             Inl err \<Rightarrow> (Some ErrAccountNotFound, rows, None)
           | Inr fromAccount \<Rightarrow>
               (case accountRepo_GetByID rows toID of
                  Inl err \<Rightarrow> (Some ErrAccountNotFound, rows, None)
                | Inr toAccount \<Rightarrow>
                    if \<not> Account_CanTransact fromAccount
                      then (Some ErrAccountCannotTransact, rows, Some (fromAccount, toAccount))
                    else if \<not> Account_CanTransact toAccount
                      then (Some ErrAccountCannotTransact, rows, Some (fromAccount, toAccount))
                    else
                      (case Account_Debit fromAccount (Amount transaction) (t_debit ck) of
                         (Some err, fromAccount') \<Rightarrow>
                           (Some (Errorf ''failed to debit from account: '' err []), rows,
                            Some (fromAccount', toAccount))
                       | (None, fromAccount') \<Rightarrow>
                           (case processTransfer_afterDebit rows fromAccount'
                                   (Account_Credit toAccount (Amount transaction) (t_credit ck))
                                   (Amount transaction) (t_rollback ck) of
                              (err, rows', fromAccount'', toAccount') \<Rightarrow>
                                (err, rows', Some (fromAccount'', toAccount'))))))
      | _ \<Rightarrow> (Some ErrMissingAccountID, rows, None))"

definition processTransferTransaction ::
  "Account list \<Rightarrow> Transaction \<Rightarrow> Clock \<Rightarrow> error option \<times> Account list" where
  "processTransferTransaction rows transaction ck =
     (case processTransfer_inMemory rows transaction ck of (err, rows', mem) \<Rightarrow> (err, rows'))"

definition processTransaction ::
  "Account list \<Rightarrow> Transaction \<Rightarrow> Clock \<Rightarrow> error option \<times> Account list" where
  "processTransaction rows transaction ck =
     (if TransactionType transaction = TransactionTypeDebit
        then processDebitTransaction rows transaction (t_debit ck)
      else if TransactionType transaction = TransactionTypeCredit
        then processCreditTransaction rows transaction (t_credit ck)
      else if TransactionType transaction = TransactionTypeTransfer
        then processTransferTransaction rows transaction ck
      else (Some (Errorf [] ErrUnsupportedType ('' : '' @ TransactionType transaction)), rows))"

section \<open>Confirming and cancelling\<close>

text \<open>The cache keys the use case builds with \<open>fmt.Sprintf\<close>.\<close>

definition idempotencyKey :: "string \<Rightarrow> string" where
  "idempotencyKey ID = ''confirm_transaction:'' @ ID"

definition lockKey :: "string \<Rightarrow> string" where
  "lockKey ID = ''lock:transaction:'' @ ID"

definition transactionCacheKey :: "string \<Rightarrow> string" where
  "transactionCacheKey ID = ''transaction:'' @ ID"

definition accountCacheKey :: "AccountID \<Rightarrow> string" where
  "accountCacheKey aid = ''account:'' @ aid"

text \<open>
  \<open>acquireDistributedLock\<close> returns whether the lock was granted and an error, and leaves
  the cache as its one \<open>Set\<close> made it. The lock's value is \<open>"lock_"\<close> and the clock's
  nanoseconds, kept here as the instant.
\<close>

definition acquireDistributedLock ::
  "Cache \<Rightarrow> string \<Rightarrow> time \<Rightarrow> (bool \<times> error option) \<times> Cache" where
  "acquireDistributedLock c key now =
     (case cache_Set c key (CachedLock now) of
        (Some err, c') \<Rightarrow> ((False, Some err), c')
      | (None, c') \<Rightarrow> ((True, None), c'))"

definition releaseLock :: "Cache \<Rightarrow> string \<Rightarrow> error option \<times> Cache" where
  "releaseLock c key = cache_Delete c key"

definition invalidateAccountCaches :: "Cache \<Rightarrow> Transaction \<Rightarrow> Cache" where
  "invalidateAccountCaches c transaction =
     (let c1 = (case FromAccountID transaction of
                  Some fromID \<Rightarrow> snd (cache_Delete c (accountCacheKey fromID))
                | None \<Rightarrow> c)
      in (case ToAccountID transaction of
            Some toID \<Rightarrow> snd (cache_Delete c1 (accountCacheKey toID))
          | None \<Rightarrow> c1))"

text \<open>
  \<open>ConfirmTransaction\<close> in two parts. The first (the source's lines 99 to 162) parses the
  identifier, looks the result up in the cache, takes the lock, loads the transaction and
  checks its status: it either returns, or goes on with the transaction it loaded. The
  deferred \<open>releaseLock\<close> runs at every return that follows the lock.
\<close>

datatype confirm_step = Return "error + TransactionResponse" | Proceed Transaction

definition confirm_load :: "World \<Rightarrow> string \<Rightarrow> time \<Rightarrow> confirm_step \<times> World" where
  "confirm_load w ID now_lock =
     (case NewTransactionIDFromString ID of
        Inl err \<Rightarrow> (Return (Inl err), w)
      | Inr transactionID \<Rightarrow>
          (case cache_Get_response (cache w) (idempotencyKey ID) of
             Some cachedResult \<Rightarrow> (Return (Inr cachedResult), w)
           | None \<Rightarrow>
               (case acquireDistributedLock (cache w) (lockKey ID) now_lock of
                  ((lockAcquired, Some err), c1) \<Rightarrow>
                    (Return (Inl (Errorf ''failed to acquire lock: '' err [])), w\<lparr>cache := c1\<rparr>)
                | ((False, None), c1) \<Rightarrow>
                    (Return (Inl ErrTransactionAlreadyInProgress), w\<lparr>cache := c1\<rparr>)
                | ((True, None), c1) \<Rightarrow>
                    (case transactionRepo_GetByID (transactions w) transactionID of
                       Inl err \<Rightarrow>
                         (Return (Inl ErrTransactionNotFound),
                          w\<lparr>cache := snd (releaseLock c1 (lockKey ID))\<rparr>)
                     | Inr transaction \<Rightarrow>
                         if TransactionStatus_IsCompleted (txn_Status transaction) then
                           (let response = ToResponse transaction;
                                c2 = snd (cache_Set c1 (idempotencyKey ID) (CachedResponse response))
                            in (Return (Inr response), w\<lparr>cache := snd (releaseLock c2 (lockKey ID))\<rparr>))
                         else if \<not> TransactionStatus_CanTransitionTo (txn_Status transaction)
                                    TransactionStatusCompleted then
                           (Return (Inl (Errorf [] ErrTransactionCannotBeConfirmed
                                      ('' in status : '' @ txn_Status transaction))),
                            w\<lparr>cache := snd (releaseLock c1 (lockKey ID))\<rparr>)
                         else (Proceed transaction, w\<lparr>cache := c1\<rparr>)))))"

text \<open>
  The second part (lines 164 to 208) processes the loaded transaction, marks it, stores it
  and caches the result; the deferred \<open>releaseLock\<close> ends it.
\<close>

definition confirm_process ::
  "World \<Rightarrow> string \<Rightarrow> Transaction \<Rightarrow> Clock \<Rightarrow> (error + TransactionResponse) \<times> World" where
  "confirm_process w ID transaction ck =
     (case processTransaction (accounts w) transaction ck of
        (Some err, rows) \<Rightarrow>
          (case Transaction_MarkAsFailed transaction of
             (Some markErr, transaction') \<Rightarrow>
               (Inl err, w\<lparr>accounts := rows, cache := snd (releaseLock (cache w) (lockKey ID))\<rparr>)
           | (None, transaction') \<Rightarrow>
               (Inl err,
                w\<lparr>accounts := rows,
                  transactions := snd (transactionRepo_Update (transactions w) transaction'),
                  cache := snd (releaseLock (cache w) (lockKey ID))\<rparr>))
      | (None, rows) \<Rightarrow>
          (case Transaction_MarkAsCompleted transaction (t_mark ck) of
             (Some err, transaction') \<Rightarrow>
               (Inl err, w\<lparr>accounts := rows, cache := snd (releaseLock (cache w) (lockKey ID))\<rparr>)
           | (None, transaction') \<Rightarrow>
               (case transactionRepo_Update (transactions w) transaction' of
                  (Some err, txns) \<Rightarrow>
                    (Inl err,
                     w\<lparr>accounts := rows, transactions := txns,
                       cache := snd (releaseLock (cache w) (lockKey ID))\<rparr>)
                | (None, txns) \<Rightarrow>
                    (let response = ToResponse transaction';
                         c1 = snd (cache_Set (cache w) (idempotencyKey ID) (CachedResponse response));
                         c2 = snd (cache_Set c1 (transactionCacheKey ID) (CachedResponse response));
                         c3 = invalidateAccountCaches c2 transaction'
                     in (Inr response,
                         w\<lparr>accounts := rows, transactions := txns,
                           cache := snd (releaseLock c3 (lockKey ID))\<rparr>)))))"

definition ConfirmTransaction ::
  "World \<Rightarrow> string \<Rightarrow> Clock \<Rightarrow> (error + TransactionResponse) \<times> World" where
  "ConfirmTransaction w ID ck =
     (case confirm_load w ID (t_lock ck) of
        (Return result, w') \<Rightarrow> (result, w')
      | (Proceed transaction, w') \<Rightarrow> confirm_process w' ID transaction ck)"

definition CancelTransaction :: "World \<Rightarrow> string \<Rightarrow> error option \<times> World" where
  "CancelTransaction w ID =
     (case NewTransactionIDFromString ID of
        Inl err \<Rightarrow> (Some err, w)
      | Inr transactionID \<Rightarrow>
          (case transactionRepo_GetByID (transactions w) transactionID of
             Inl err \<Rightarrow> (Some ErrTransactionNotFound, w)
           | Inr transaction \<Rightarrow>
               if \<not> TransactionStatus_IsPending (txn_Status transaction) then
                 (Some (Errorf [] ErrTransactionCannotBeCancelled
                          ('' in status: '' @ txn_Status transaction)), w)
               else
                 (case Transaction_MarkAsCancelled transaction of
                    (Some err, transaction') \<Rightarrow> (Some err, w)
                  | (None, transaction') \<Rightarrow>
                      (case transactionRepo_Update (transactions w) transaction' of
                         (Some err, txns) \<Rightarrow> (Some err, w\<lparr>transactions := txns\<rparr>)
                       | (None, txns) \<Rightarrow>
                           (None,
                            w\<lparr>transactions := txns,
                              cache := snd (cache_Set (cache w) (transactionCacheKey ID)
                                              (CachedResponse (ToResponse transaction')))\<rparr>)))))"

section \<open>Tables and examples\<close>

text \<open>The errors the account side of a confirmation can report.\<close>

definition account_errors :: "error set" where
  "account_errors =
     {ErrMissingAccountID, ErrAccountNotFound, ErrAccountCannotTransact,
      ErrInvalidTransactionAmount, ErrInsufficientBalance}"

text \<open>
  Two ACTIVE accounts, A with 100 and B with 10; three PENDING transactions, a debit of 40
  from A, a debit of 150 from A and a transfer of 40 from A to B; a cache that answers and
  is empty; and the readings of the clock during one confirmation.
\<close>

definition example_account :: Account where
  "example_account =
     \<lparr>acc_ID = ''2024072912345678'', AccountName = ''A'', Balance = Money (Decimal 100 0),
      acc_Status = ''ACTIVE'', acc_CreatedAt = 1, UpdatedAt = 1\<rparr>"

definition example_account_B :: Account where
  "example_account_B =
     \<lparr>acc_ID = ''2024072987654321'', AccountName = ''B'', Balance = Money (Decimal 10 0),
      acc_Status = ''ACTIVE'', acc_CreatedAt = 1, UpdatedAt = 1\<rparr>"

definition example_debit :: Transaction where
  "example_debit =
     \<lparr>txn_ID = ''TXN20240729143045123456'', FromAccountID = Some ''2024072912345678'',
      ToAccountID = None, TransactionType = ''DEBIT'', Amount = Money (Decimal 40 0),
      Description = ''rent'', Reference = ''REF001'', txn_Status = ''PENDING'',
      txn_CreatedAt = 2, CompletedAt = None\<rparr>"

definition example_overdraft :: Transaction where
  "example_overdraft =
     \<lparr>txn_ID = ''TXN20240729143045654321'', FromAccountID = Some ''2024072912345678'',
      ToAccountID = None, TransactionType = ''DEBIT'', Amount = Money (Decimal 150 0),
      Description = ''car'', Reference = ''REF002'', txn_Status = ''PENDING'',
      txn_CreatedAt = 3, CompletedAt = None\<rparr>"

definition example_transfer :: Transaction where
  "example_transfer =
     \<lparr>txn_ID = ''TXN20240729143045111111'', FromAccountID = Some ''2024072912345678'',
      ToAccountID = Some ''2024072987654321'', TransactionType = ''TRANSFER'',
      Amount = Money (Decimal 40 0), Description = ''gift'', Reference = ''REF003'',
      txn_Status = ''PENDING'', txn_CreatedAt = 4, CompletedAt = None\<rparr>"

definition example_world :: World where
  "example_world =
     \<lparr>accounts = [example_account, example_account_B],
      transactions = [example_debit, example_overdraft, example_transfer],
      cache = \<lparr>cache_up = True, cache_entries = []\<rparr>\<rparr>"

definition example_clock :: Clock where
  "example_clock = \<lparr>t_lock = 10, t_debit = 11, t_credit = 12, t_rollback = 13, t_mark = 14\<rparr>"

text \<open>What confirming the debit of 40 at \<open>example_clock\<close> returns.\<close>

definition example_response :: TransactionResponse where
  "example_response =
     \<lparr>r_ID = ''TXN20240729143045123456'', r_FromAccountID = Some ''2024072912345678'',
      r_ToAccountID = None, r_TransactionType = ''DEBIT'', r_Amount = Decimal 40 0,
      r_Description = ''rent'', r_Reference = ''REF001'', r_Status = ''COMPLETED'',
      r_CreatedAt = 2, r_CompletedAt = Some 14\<rparr>"

text \<open>The example world while another confirmation of the debit holds its lock.\<close>

definition example_world_locked :: World where
  "example_world_locked =
     example_world\<lparr>cache :=
       \<lparr>cache_up = True,
        cache_entries = [(''lock:transaction:TXN20240729143045123456'', CachedLock 5)]\<rparr>\<rparr>"

section \<open>Decimal arithmetic is exact\<close>

lemma dec_val_rescale_down:
  "e \<le> d_exp d \<Longrightarrow> dec_val (dec_rescale d e) = dec_val d"
proof -
  assume le: "e \<le> d_exp d"
  have ten: "(10::rat) powi (d_exp d) = 10 powi (d_exp d - e) * 10 powi e"
    by (simp flip: power_int_add)
  have nat_pow: "(10::rat) powi (d_exp d - e) = 10 ^ nat (d_exp d - e)"
    using le by (simp add: power_int_def)
  show ?thesis
    using le by (cases "d_exp d = e") (simp_all add: dec_rescale_def dec_val_def ten nat_pow)
qed

lemma dec_RescalePair_exp:
  "dec_RescalePair a b = (ra, rb) \<Longrightarrow>
     d_exp ra = min (d_exp a) (d_exp b) \<and> d_exp rb = min (d_exp a) (d_exp b)"
  by (auto simp: dec_RescalePair_def dec_rescale_def split: if_splits)

lemma dec_RescalePair_val:
  "dec_RescalePair a b = (ra, rb) \<Longrightarrow> dec_val ra = dec_val a \<and> dec_val rb = dec_val b"
  by (auto simp: dec_RescalePair_def dec_val_rescale_down split: if_splits)

lemma dec_val_same_exp:
  "d_exp a = d_exp b \<Longrightarrow> (dec_val a < dec_val b) = (d_value a < d_value b)"
  "d_exp a = d_exp b \<Longrightarrow> (dec_val a = dec_val b) = (d_value a = d_value b)"
  by (simp_all add: dec_val_def)

lemma dec_val_Add: "dec_val (dec_Add a b) = dec_val a + dec_val b"
proof -
  obtain ra rb where p: "dec_RescalePair a b = (ra, rb)"
    by (cases "dec_RescalePair a b")
  from dec_RescalePair_exp [OF p] dec_RescalePair_val [OF p] show ?thesis
    by (simp add: dec_Add_def p dec_val_def algebra_simps)
qed

lemma dec_val_Sub: "dec_val (dec_Sub a b) = dec_val a - dec_val b"
proof -
  obtain ra rb where p: "dec_RescalePair a b = (ra, rb)"
    by (cases "dec_RescalePair a b")
  from dec_RescalePair_exp [OF p] dec_RescalePair_val [OF p] show ?thesis
    by (simp add: dec_Sub_def p dec_val_def algebra_simps)
qed

lemma dec_Equal_val: "dec_Equal a b = (dec_val a = dec_val b)"
proof -
  obtain ra rb where p: "dec_RescalePair a b = (ra, rb)"
    by (cases "dec_RescalePair a b")
  from dec_RescalePair_exp [OF p] have "d_exp ra = d_exp rb"
    by simp
  from dec_val_same_exp(2) [OF this] dec_RescalePair_val [OF p] show ?thesis
    by (auto simp: dec_Equal_def dec_Cmp_def p)
qed

lemma ten_powi_pos: "(0::rat) < 10 powi e"
  by (rule zero_less_power_int) simp

lemma ten_powi_not_neg: "\<not> (10::rat) powi e < 0"
  using ten_powi_pos [of e] by (simp only: not_less less_imp_le)

lemma dec_sign_val:
  "dec_IsZero d = (dec_val d = 0)"
  "dec_IsPositive d = (0 < dec_val d)"
  "dec_IsNegative d = (dec_val d < 0)"
  by (auto simp: dec_IsZero_def dec_IsPositive_def dec_IsNegative_def dec_Sign_def dec_val_def
      sgn_if zero_less_mult_iff mult_less_0_iff ten_powi_not_neg)

lemma Money_val_Add: "Money_val (fst (Money_Add a b)) = Money_val a + Money_val b"
  by (simp add: Money_Add_def Money_val_def dec_val_Add)

lemma Money_val_Subtract: "Money_val (fst (Money_Subtract a b)) = Money_val a - Money_val b"
  by (simp add: Money_Subtract_def Money_val_def dec_val_Sub)

lemma Money_Equal_val: "Money_Equal a b = (Money_val a = Money_val b)"
  by (simp add: Money_Equal_def Money_val_def dec_Equal_val)

lemma Money_sign_val:
  "Money_IsZero m = (Money_val m = 0)"
  "Money_IsPositive m = (0 < Money_val m)"
  "Money_IsNegative m = (Money_val m < 0)"
  by (simp_all add: Money_IsZero_def Money_IsPositive_def Money_IsNegative_def Money_val_def
      dec_sign_val)

section \<open>The cache and the stores\<close>

lemma map_of_filter_key:
  "map_of (filter (\<lambda>kv. fst kv \<noteq> k) xs) k' = (if k' = k then None else map_of xs k')"
  by (induction xs) auto

lemma cache_Get_after_Set:
  "cache_Get_response (snd (cache_Set c k v)) k' =
     (if k' = k \<and> cache_up c
      then (case v of CachedResponse r \<Rightarrow> Some r | CachedLock l \<Rightarrow> None)
      else cache_Get_response c k')"
  by (simp add: cache_Get_response_def cache_Set_def map_of_filter_key)


lemma cache_up_after [simp]:
  "cache_up (snd (cache_Set c k v)) = cache_up c"
  "cache_up (snd (cache_Delete c k)) = cache_up c"
  by (simp_all add: cache_Set_def cache_Delete_def)

lemma keys_distinct [simp]:
  "idempotencyKey ID \<noteq> lockKey ID'"
  "idempotencyKey ID \<noteq> transactionCacheKey ID'"
  "idempotencyKey ID \<noteq> accountCacheKey aid"
  by (simp_all add: idempotencyKey_def lockKey_def transactionCacheKey_def accountCacheKey_def)


lemma acquireDistributedLock_result:
  "acquireDistributedLock c key now =
     (if cache_up c then ((True, None), snd (cache_Set c key (CachedLock now)))
      else ((False, Some ErrCacheUnavailable), c))"
  by (simp add: acquireDistributedLock_def cache_Set_def)


lemma find_Some_holds: "find P xs = Some x \<Longrightarrow> P x"
  by (induction xs) (auto split: if_splits)

lemma find_replace_first:
  "find P xs = Some x \<Longrightarrow> P y \<Longrightarrow> find P (replace_first P y xs) = Some y"
  by (induction xs) (auto split: if_splits)

section \<open>The errors of a confirmation\<close>

lemma Account_Debit_errors:
  "Account_Debit a amt now = (Some e, a') \<Longrightarrow> e \<in> account_errors"
  by (auto simp: Account_Debit_def Money_Subtract_def account_errors_def split: if_splits)

lemma Account_Credit_errors:
  "Account_Credit a amt now = (Some e, a') \<Longrightarrow> e \<in> account_errors"
  by (auto simp: Account_Credit_def Money_Add_def account_errors_def split: if_splits)

lemma accountRepo_Update_errors:
  "accountRepo_Update rows a = (Some e, rows') \<Longrightarrow> e \<in> account_errors"
  by (auto simp: accountRepo_Update_def account_errors_def split: option.splits)

lemma transactionRepo_Update_error:
  "transactionRepo_Update rows a = (Some e, rows') \<Longrightarrow> e = ErrTransactionNotFound"
  by (auto simp: transactionRepo_Update_def split: option.splits)

lemma processDebitTransaction_errors:
  "processDebitTransaction rows t now = (Some e, rows') \<Longrightarrow> e \<in> account_errors"
  by (auto simp: processDebitTransaction_def split: option.splits sum.splits if_splits prod.splits
      dest: Account_Debit_errors accountRepo_Update_errors)
     (simp_all add: account_errors_def)

lemma processCreditTransaction_errors:
  "processCreditTransaction rows t now = (Some e, rows') \<Longrightarrow> e \<in> account_errors"
  by (auto simp: processCreditTransaction_def split: option.splits sum.splits if_splits prod.splits
      dest: Account_Credit_errors accountRepo_Update_errors)
     (simp_all add: account_errors_def)

lemma processTransfer_afterDebit_errors:
  "processTransfer_afterDebit rows fa credited amt now = (Some e, rest) \<Longrightarrow>
     (\<And>e' a'. credited = (Some e', a') \<Longrightarrow> e' \<in> account_errors) \<Longrightarrow>
     \<exists>p e'. e = Errorf p e' [] \<and> e' \<in> account_errors"
  by (auto simp: processTransfer_afterDebit_def split: option.splits prod.splits
      dest: accountRepo_Update_errors)

lemma processTransfer_inMemory_errors:
  "processTransfer_inMemory rows t ck = (Some e, rest) \<Longrightarrow>
     e \<in> account_errors \<or> (\<exists>p e'. e = Errorf p e' [] \<and> e' \<in> account_errors)"
  unfolding processTransfer_inMemory_def
  by (auto split: option.splits sum.splits if_splits prod.splits
      dest: Account_Debit_errors
      dest!: processTransfer_afterDebit_errors [OF _ Account_Credit_errors])
     (simp_all add: account_errors_def)

lemma processTransaction_errors:
  "processTransaction rows t ck = (Some e, rows') \<Longrightarrow>
     \<not> errors_Is e ErrTransactionAlreadyInProgress"
  unfolding processTransaction_def processTransferTransaction_def
  by (auto split: if_splits prod.splits
      dest!: processDebitTransaction_errors processCreditTransaction_errors
        processTransfer_inMemory_errors)
     (auto simp: account_errors_def)

section \<open>The two parts of a confirmation\<close>


lemma confirm_load_Proceed:
  assumes "confirm_load w ID now = (Proceed t, w')"
  shows "cache_up (cache w') \<and> validateTransactionID ID = None \<and>
         transactionRepo_GetByID (transactions w) ID = Inr t \<and>
         TransactionStatus_CanTransitionTo (txn_Status t) TransactionStatusCompleted \<and>
         accounts w' = accounts w \<and> transactions w' = transactions w"
  using assms
  by (auto simp: confirm_load_def NewTransactionIDFromString_def acquireDistributedLock_result
      releaseLock_def Let_def
      split: option.splits sum.splits if_splits)

lemma confirm_load_errors:
  "confirm_load w ID now = (Return (Inl e), w') \<Longrightarrow>
     \<not> errors_Is e ErrTransactionAlreadyInProgress"
  unfolding confirm_load_def
  by (auto simp: Let_def NewTransactionIDFromString_def validateTransactionID_def
      acquireDistributedLock_result
      split: option.splits sum.splits if_splits)




lemma confirm_process_errors:
  "confirm_process w ID t ck = (Inl e, w') \<Longrightarrow>
     TransactionStatus_CanTransitionTo (txn_Status t) TransactionStatusCompleted \<Longrightarrow>
     \<not> errors_Is e ErrTransactionAlreadyInProgress"
  unfolding confirm_process_def
  by (auto simp: Let_def Transaction_MarkAsCompleted_def
      split: option.splits prod.splits if_splits
      dest: processTransaction_errors transactionRepo_Update_error)

lemma ConfirmTransaction_cases:
  obtains (returned) res w' where
      "confirm_load w ID (t_lock ck) = (Return res, w')"
      "ConfirmTransaction w ID ck = (res, w')"
  | (processed) t w1 where
      "confirm_load w ID (t_lock ck) = (Proceed t, w1)"
      "ConfirmTransaction w ID ck = confirm_process w1 ID t ck"
proof (cases "confirm_load w ID (t_lock ck)")
  case (Pair step w1)
  then show ?thesis
    by (cases step) (auto simp: ConfirmTransaction_def intro: returned processed)
qed






lemma confirm_never_in_progress:
  assumes "fst (ConfirmTransaction w ID ck) = Inl e"
  shows "\<not> errors_Is e ErrTransactionAlreadyInProgress"
proof (cases w ID ck rule: ConfirmTransaction_cases)
  case (returned res w')
  with assms have "confirm_load w ID (t_lock ck) = (Return (Inl e), w')"
    by simp
  then show ?thesis
    by (rule confirm_load_errors)
next
  case (processed t w1)
  obtain res w2 where p: "confirm_process w1 ID t ck = (res, w2)"
    by (cases "confirm_process w1 ID t ck")
  with processed(2) assms have "confirm_process w1 ID t ck = (Inl e, w2)"
    by simp
  from confirm_process_errors [OF this] confirm_load_Proceed [OF processed(1)] show ?thesis
    by simp
qed

section \<open>Cancelling\<close>

lemma CancelTransaction_pending:
  assumes "validateTransactionID ID = None"
    and "transactionRepo_GetByID (transactions w) ID = Inr t"
    and "txn_Status t = TransactionStatusPending"
  shows "\<exists>w'. CancelTransaction w ID = (None, w') \<and> accounts w' = accounts w \<and>
           cache_up (cache w') = cache_up (cache w) \<and>
           cache_Get_response (cache w') (idempotencyKey ID) =
             cache_Get_response (cache w) (idempotencyKey ID) \<and>
           transactionRepo_GetByID (transactions w') ID =
             Inr (t\<lparr>txn_Status := TransactionStatusCancelled\<rparr>)"
proof -
  from assms(2) have f: "find (\<lambda>t. txn_ID t = ID) (transactions w) = Some t"
    by (simp add: transactionRepo_GetByID_def split: option.splits)
  from find_Some_holds [OF f] have tid: "txn_ID t = ID" .
  have m: "Transaction_MarkAsCancelled t = (None, t\<lparr>txn_Status := TransactionStatusCancelled\<rparr>)"
    using assms(3)
    by (simp add: Transaction_MarkAsCancelled_def TransactionStatus_CanTransitionTo_def)
  have u: "transactionRepo_Update (transactions w) (t\<lparr>txn_Status := TransactionStatusCancelled\<rparr>) =
      (None, replace_first (\<lambda>x. txn_ID x = ID) (t\<lparr>txn_Status := TransactionStatusCancelled\<rparr>)
         (transactions w))"
    using f tid by (simp add: transactionRepo_Update_def)
  have g: "find (\<lambda>x. txn_ID x = ID)
      (replace_first (\<lambda>x. txn_ID x = ID) (t\<lparr>txn_Status := TransactionStatusCancelled\<rparr>)
         (transactions w)) = Some (t\<lparr>txn_Status := TransactionStatusCancelled\<rparr>)"
    using f tid by (intro find_replace_first) simp_all
  show ?thesis
    using assms g
    by (simp add: CancelTransaction_def NewTransactionIDFromString_def m u
        TransactionStatus_IsPending_def cache_Get_after_Set transactionRepo_GetByID_def)
qed

lemma CancelTransaction_not_pending:
  assumes "validateTransactionID ID = None"
    and "transactionRepo_GetByID (transactions w) ID = Inr t"
    and "txn_Status t \<noteq> TransactionStatusPending"
  shows "CancelTransaction w ID =
           (Some (Errorf [] ErrTransactionCannotBeCancelled ('' in status: '' @ txn_Status t)), w)"
  using assms
  by (simp add: CancelTransaction_def NewTransactionIDFromString_def
      TransactionStatus_IsPending_def)

lemma confirm_cancelled:
  assumes "validateTransactionID ID = None"
    and "cache_up (cache w)"
    and "cache_Get_response (cache w) (idempotencyKey ID) = None"
    and "transactionRepo_GetByID (transactions w) ID = Inr t"
    and "txn_Status t = TransactionStatusCancelled"
  shows "fst (ConfirmTransaction w ID ck) =
           Inl (Errorf [] ErrTransactionCannotBeConfirmed '' in status : CANCELLED'') \<and>
         accounts (snd (ConfirmTransaction w ID ck)) = accounts w \<and>
         transactions (snd (ConfirmTransaction w ID ck)) = transactions w"
  using assms
  by (simp add: ConfirmTransaction_def confirm_load_def NewTransactionIDFromString_def
      acquireDistributedLock_result TransactionStatus_IsCompleted_def Let_def
      TransactionStatus_CanTransitionTo_def TransactionStatusCancelled_def
      TransactionStatusCompleted_def TransactionStatusPending_def TransactionStatusFailed_def)

section \<open>Debit followed by credit\<close>

lemma Account_Debit_ok:
  assumes "Account_Debit a amt now = (None, a')"
  shows "0 < Money_val amt \<and>
         a' = a\<lparr>Balance := fst (Money_Subtract (Balance a) amt), UpdatedAt := now\<rparr>"
  using assms
  by (auto simp: Account_Debit_def Money_sign_val Money_Subtract_def split: if_splits)

lemma Account_Credit_positive:
  assumes "0 < Money_val amt"
  shows "Account_Credit a amt now =
           (None, a\<lparr>Balance := fst (Money_Add (Balance a) amt), UpdatedAt := now\<rparr>)"
  using assms by (simp add: Account_Credit_def Money_sign_val Money_Add_def)


text \<open>
  Once the debit has succeeded the amount is strictly positive, so no credit of the same
  amount can fail: within \<open>processTransferTransaction\<close> the rollback is never entered.
\<close>

lemma Credit_succeeds_after_Debit:
  assumes "Account_Debit a amt t1 = (None, a')"
  shows "fst (Account_Credit b amt t2) = None"
  using Account_Debit_ok [OF assms] by (simp add: Account_Credit_positive)



section \<open>Evaluating the examples\<close>

lemma example_ids_valid:
  "validateTransactionID ''TXN20240729143045123456'' = None"
  "validateTransactionID ''TXN20240729143045654321'' = None"
  "validateTransactionID ''TXN20240729143045111111'' = None"
  by (simp_all add: validateTransactionID_def HasPrefix_def time_Parse_ok_def ParseInt_ok_def
      isDigit_def digits_val_def daysIn_def isLeap_def)

lemmas status_defs =
  AccountStatusActive_def AccountStatusInactive_def AccountStatusSuspended_def
  AccountStatus_CanTransact_def AccountStatus_CanTransitionTo_def AccountStatus_IsValid_def
  TransactionStatusPending_def TransactionStatusCompleted_def TransactionStatusFailed_def
  TransactionStatusCancelled_def TransactionStatus_IsPending_def
  TransactionStatus_IsCompleted_def TransactionStatus_CanTransitionTo_def
  TransactionTypeDebit_def TransactionTypeCredit_def TransactionTypeTransfer_def

lemmas money_defs =
  Money_IsZero_def Money_IsPositive_def Money_IsNegative_def Money_Add_def Money_Subtract_def
  Money_Equal_def dec_IsZero_def dec_IsPositive_def dec_IsNegative_def dec_Sign_def
  dec_Add_def dec_Sub_def dec_Equal_def dec_Cmp_def dec_RescalePair_def dec_rescale_def

lemmas usecase_defs =
  ConfirmTransaction_def confirm_load_def confirm_process_def CancelTransaction_def
  NewTransactionIDFromString_def processTransaction_def processDebitTransaction_def
  processCreditTransaction_def processTransferTransaction_def processTransfer_inMemory_def
  processTransfer_afterDebit_def acquireDistributedLock_def releaseLock_def
  invalidateAccountCaches_def cache_Set_def cache_Delete_def cache_Get_response_def
  accountRepo_GetByID_def accountRepo_Update_def transactionRepo_GetByID_def
  transactionRepo_Update_def Account_CanTransact_def Account_Debit_def Account_Credit_def
  Transaction_MarkAsCompleted_def Transaction_MarkAsFailed_def Transaction_MarkAsCancelled_def
  ToResponse_def idempotencyKey_def lockKey_def transactionCacheKey_def accountCacheKey_def

lemmas example_defs =
  example_world_def example_world_locked_def example_clock_def example_account_def
  example_account_B_def example_debit_def example_overdraft_def example_transfer_def
  example_response_def

section \<open>Money: adding and subtracting the same amount\<close>

text \<open>
  C10. For all Money values \<open>a\<close> and \<open>b\<close>, neither \<open>a.Add(b)\<close> nor the following
  \<open>Subtract(b)\<close> returns an error, and the value they yield is \<open>Equal\<close> to \<open>a\<close>.
\<close>

theorem Money_Add_Subtract_roundtrip:
  "snd (Money_Add a b) = None \<and>
   snd (Money_Subtract (fst (Money_Add a b)) b) = None \<and>
   Money_Equal (fst (Money_Subtract (fst (Money_Add a b)) b)) a"
  by (simp add: Money_Equal_val Money_val_Subtract Money_val_Add)
     (simp add: Money_Add_def Money_Subtract_def)

text \<open>
  At 100 and 0.50 the round trip yields the coefficient 10000 at exponent -2: another
  representation of 100, which \<open>Equal\<close> identifies with it.
\<close>

theorem Money_Add_Subtract_roundtrip_witness:
  "fst (Money_Subtract (fst (Money_Add (Money (Decimal 100 0)) (Money (Decimal 50 (- 2)))))
      (Money (Decimal 50 (- 2)))) = Money (Decimal 10000 (- 2)) \<and>
   Money_Equal (fst (Money_Subtract (fst (Money_Add (Money (Decimal 100 0)) (Money (Decimal 50 (- 2)))))
      (Money (Decimal 50 (- 2))))) (Money (Decimal 100 0))"
  using Money_Add_Subtract_roundtrip [of "Money (Decimal 100 0)" "Money (Decimal 50 (- 2))"]
  by (simp add: Money_Add_def Money_Subtract_def dec_Add_def dec_Sub_def dec_RescalePair_def
      dec_rescale_def)

section \<open>Account: debit and credit\<close>

text \<open>
  C1. For every account and every strictly positive amount: when balance minus amount is
  negative, \<open>Debit\<close> fails with \<open>ErrInsufficientBalance\<close> and leaves the account (so its
  Balance) as it was; otherwise it succeeds, only Balance and UpdatedAt change, the new
  balance is the old one minus the amount, and UpdatedAt is the time of the call.
\<close>

theorem Account_Debit_positive_amount:
  assumes "0 < Money_val amt"
  shows "if Money_val (Balance a) - Money_val amt < 0
         then Account_Debit a amt now = (Some ErrInsufficientBalance, a)
         else (\<exists>nb. Account_Debit a amt now = (None, a\<lparr>Balance := nb, UpdatedAt := now\<rparr>) \<and>
                 Money_val nb = Money_val (Balance a) - Money_val amt)"
proof -
  from assms have pos: "\<not> (Money_IsZero amt \<or> \<not> Money_IsPositive amt)"
    by (simp add: Money_sign_val)
  obtain nb where sub: "Money_Subtract (Balance a) amt = (nb, None)"
    by (simp add: Money_Subtract_def)
  have nb: "Money_val nb = Money_val (Balance a) - Money_val amt"
    using Money_val_Subtract [of "Balance a" amt] by (simp add: sub)
  have neg: "dec_IsNegative (amount nb) = (Money_val (Balance a) - Money_val amt < 0)"
    using Money_sign_val(3) [of nb] by (simp add: Money_IsNegative_def nb)
  have run: "Account_Debit a amt now =
      (if dec_IsNegative (amount nb) then (Some ErrInsufficientBalance, a)
       else (None, a\<lparr>Balance := nb, UpdatedAt := now\<rparr>))"
    unfolding Account_Debit_def using pos by (simp add: sub)
  show ?thesis
    using nb by (auto simp: run neg)
qed

theorem Account_Debit_positive_amount_witness:
  "0 < Money_val (Money (Decimal 4000 (- 2))) \<and>
   Account_Debit \<lparr>acc_ID = ''2024072912345678'', AccountName = ''A'',
       Balance = Money (Decimal 100 0), acc_Status = ''ACTIVE'', acc_CreatedAt = 1, UpdatedAt = 1\<rparr>
     (Money (Decimal 4000 (- 2))) 7
   = (None, \<lparr>acc_ID = ''2024072912345678'', AccountName = ''A'',
       Balance = Money (Decimal 6000 (- 2)), acc_Status = ''ACTIVE'', acc_CreatedAt = 1, UpdatedAt = 7\<rparr>) \<and>
   Account_Debit \<lparr>acc_ID = ''2024072912345678'', AccountName = ''A'',
       Balance = Money (Decimal 100 0), acc_Status = ''ACTIVE'', acc_CreatedAt = 1, UpdatedAt = 1\<rparr>
     (Money (Decimal 10001 (- 2))) 7
   = (Some ErrInsufficientBalance, \<lparr>acc_ID = ''2024072912345678'', AccountName = ''A'',
       Balance = Money (Decimal 100 0), acc_Status = ''ACTIVE'', acc_CreatedAt = 1, UpdatedAt = 1\<rparr>)"
proof -
  have h: "0 < Money_val (Money (Decimal 4000 (- 2)))"
    by (simp add: Money_val_def dec_val_def)
  from Account_Debit_positive_amount [OF h] h show ?thesis
    by (simp add: Account_Debit_def Money_IsZero_def Money_IsPositive_def dec_IsZero_def
        dec_IsPositive_def dec_IsNegative_def dec_Sign_def Money_Subtract_def dec_Sub_def
        dec_RescalePair_def dec_rescale_def)
qed

text \<open>
  C7. For every account, whatever its status, and every amount that is zero or negative,
  \<open>Debit\<close> and \<open>Credit\<close> fail (with \<open>ErrInvalidTransactionAmount\<close>) and leave the account,
  so its Balance and its UpdatedAt, as it was.
\<close>

theorem Account_Debit_Credit_nonpositive_amount:
  assumes "Money_val amt \<le> 0"
  shows "Account_Debit a amt now = (Some ErrInvalidTransactionAmount, a) \<and>
         Account_Credit a amt now = (Some ErrInvalidTransactionAmount, a)"
proof -
  from assms have "Money_IsZero amt \<or> \<not> Money_IsPositive amt"
    by (simp add: Money_sign_val)
  then show ?thesis
    by (simp add: Account_Debit_def Account_Credit_def)
qed

theorem Account_Debit_Credit_nonpositive_amount_witness:
  "Money_val (Money (Decimal (- 50) 0)) \<le> 0 \<and>
   Account_Debit \<lparr>acc_ID = ''2024072912345678'', AccountName = ''A'',
       Balance = Money (Decimal 100 0), acc_Status = ''SUSPENDED'', acc_CreatedAt = 1, UpdatedAt = 1\<rparr>
     (Money (Decimal (- 50) 0)) 7
   = (Some ErrInvalidTransactionAmount, \<lparr>acc_ID = ''2024072912345678'', AccountName = ''A'',
       Balance = Money (Decimal 100 0), acc_Status = ''SUSPENDED'', acc_CreatedAt = 1, UpdatedAt = 1\<rparr>) \<and>
   Account_Credit \<lparr>acc_ID = ''2024072912345678'', AccountName = ''A'',
       Balance = Money (Decimal 100 0), acc_Status = ''SUSPENDED'', acc_CreatedAt = 1, UpdatedAt = 1\<rparr>
     (Money (Decimal (- 50) 0)) 7
   = (Some ErrInvalidTransactionAmount, \<lparr>acc_ID = ''2024072912345678'', AccountName = ''A'',
       Balance = Money (Decimal 100 0), acc_Status = ''SUSPENDED'', acc_CreatedAt = 1, UpdatedAt = 1\<rparr>)"
proof -
  have h: "Money_val (Money (Decimal (- 50) 0)) \<le> 0"
    by (simp add: Money_val_def dec_val_def)
  from Account_Debit_Credit_nonpositive_amount [OF h] h show ?thesis
    by simp
qed

section \<open>Status transitions\<close>

lemma AccountStatus_CanTransitionTo_table:
  "s \<in> set account_statuses \<Longrightarrow> target \<in> set account_statuses \<Longrightarrow>
     AccountStatus_CanTransitionTo s target = ((s, target) \<in> set spec_account_transitions)"
  by (auto simp: account_statuses_def spec_account_transitions_def
      AccountStatus_CanTransitionTo_def AccountStatusActive_def AccountStatusInactive_def
      AccountStatusSuspended_def)

lemma TransactionStatus_CanTransitionTo_table:
  "s \<in> set transaction_statuses \<Longrightarrow> target \<in> set transaction_statuses \<Longrightarrow>
     TransactionStatus_CanTransitionTo s target = ((s, target) \<in> set spec_transaction_transitions)"
  by (auto simp: transaction_statuses_def spec_transaction_transitions_def
      TransactionStatus_CanTransitionTo_def TransactionStatusPending_def
      TransactionStatusCompleted_def TransactionStatusFailed_def TransactionStatusCancelled_def)

lemma transaction_statuses_valid:
  "target \<in> set transaction_statuses \<Longrightarrow> TransactionStatus_IsValid target"
  by (auto simp: transaction_statuses_def TransactionStatus_IsValid_def
      TransactionStatusPending_def TransactionStatusCompleted_def TransactionStatusFailed_def
      TransactionStatusCancelled_def)

lemma account_statuses_valid: "target \<in> set account_statuses \<Longrightarrow> AccountStatus_IsValid target"
  by (auto simp: account_statuses_def AccountStatus_IsValid_def AccountStatusActive_def
      AccountStatusInactive_def AccountStatusSuspended_def)

text \<open>
  C5, as the code has it. For every ordered pair of the three account statuses,
  \<open>SetStatus\<close> succeeds exactly when the pair is in the table of section 4.2, and then sets
  Status and UpdatedAt. For every transaction status, \<open>MarkAsCompleted\<close>, \<open>MarkAsFailed\<close>
  and \<open>MarkAsCancelled\<close> succeed exactly when the pair is in the table of section 4.3;
  \<open>MarkAsCompleted\<close> then sets Status and CompletedAt, the other two set Status alone (a
  transaction has no UpdatedAt); the transaction's own \<open>SetStatus\<close> does the same for
  every pair of statuses. Every other pair, the self-transitions among them, fails and
  leaves the entity as it was.
\<close>

theorem status_transitions_follow_tables:
  "(\<forall>s \<in> set account_statuses. \<forall>target \<in> set account_statuses. \<forall>a now.
      acc_Status a = s \<longrightarrow>
        (if (s, target) \<in> set spec_account_transitions
         then Account_SetStatus a target now = (None, a\<lparr>acc_Status := target, UpdatedAt := now\<rparr>)
         else fst (Account_SetStatus a target now) \<noteq> None \<and>
              snd (Account_SetStatus a target now) = a)) \<and>
   (\<forall>s \<in> set transaction_statuses. \<forall>t now.
      txn_Status t = s \<longrightarrow>
        (if (s, ''COMPLETED'') \<in> set spec_transaction_transitions
         then Transaction_MarkAsCompleted t now =
                (None, t\<lparr>txn_Status := ''COMPLETED'', CompletedAt := Some now\<rparr>)
         else fst (Transaction_MarkAsCompleted t now) \<noteq> None \<and>
              snd (Transaction_MarkAsCompleted t now) = t) \<and>
        (if (s, ''FAILED'') \<in> set spec_transaction_transitions
         then Transaction_MarkAsFailed t = (None, t\<lparr>txn_Status := ''FAILED''\<rparr>)
         else fst (Transaction_MarkAsFailed t) \<noteq> None \<and> snd (Transaction_MarkAsFailed t) = t) \<and>
        (if (s, ''CANCELLED'') \<in> set spec_transaction_transitions
         then Transaction_MarkAsCancelled t = (None, t\<lparr>txn_Status := ''CANCELLED''\<rparr>)
         else fst (Transaction_MarkAsCancelled t) \<noteq> None \<and>
              snd (Transaction_MarkAsCancelled t) = t)) \<and>
   (\<forall>s \<in> set transaction_statuses. \<forall>target \<in> set transaction_statuses. \<forall>t now.
      txn_Status t = s \<longrightarrow>
        (if (s, target) \<in> set spec_transaction_transitions
         then Transaction_SetStatus t target now =
                (None, if target = ''COMPLETED''
                       then t\<lparr>txn_Status := target, CompletedAt := Some now\<rparr>
                       else t\<lparr>txn_Status := target\<rparr>)
         else fst (Transaction_SetStatus t target now) \<noteq> None \<and>
              snd (Transaction_SetStatus t target now) = t))"
proof (intro conjI ballI allI impI)
  fix s target :: string and a :: Account and now :: time
  assume st: "s \<in> set account_statuses" "target \<in> set account_statuses" "acc_Status a = s"
  show "if (s, target) \<in> set spec_account_transitions
        then Account_SetStatus a target now = (None, a\<lparr>acc_Status := target, UpdatedAt := now\<rparr>)
        else fst (Account_SetStatus a target now) \<noteq> None \<and>
             snd (Account_SetStatus a target now) = a"
    using AccountStatus_CanTransitionTo_table [OF st(1,2)] account_statuses_valid [OF st(2)] st(3)
    by (simp add: Account_SetStatus_def)
next
  fix s :: string and t :: Transaction and now :: time
  assume st: "s \<in> set transaction_statuses" "txn_Status t = s"
  have c: "''COMPLETED'' \<in> set transaction_statuses"
    by (simp add: transaction_statuses_def)
  show "if (s, ''COMPLETED'') \<in> set spec_transaction_transitions
        then Transaction_MarkAsCompleted t now =
               (None, t\<lparr>txn_Status := ''COMPLETED'', CompletedAt := Some now\<rparr>)
        else fst (Transaction_MarkAsCompleted t now) \<noteq> None \<and>
             snd (Transaction_MarkAsCompleted t now) = t"
    using TransactionStatus_CanTransitionTo_table [OF st(1) c] st(2)
    by (simp add: Transaction_MarkAsCompleted_def TransactionStatusCompleted_def)
next
  fix s :: string and t :: Transaction and now :: time
  assume st: "s \<in> set transaction_statuses" "txn_Status t = s"
  have c: "''FAILED'' \<in> set transaction_statuses"
    by (simp add: transaction_statuses_def)
  show "if (s, ''FAILED'') \<in> set spec_transaction_transitions
        then Transaction_MarkAsFailed t = (None, t\<lparr>txn_Status := ''FAILED''\<rparr>)
        else fst (Transaction_MarkAsFailed t) \<noteq> None \<and> snd (Transaction_MarkAsFailed t) = t"
    using TransactionStatus_CanTransitionTo_table [OF st(1) c] st(2)
    by (simp add: Transaction_MarkAsFailed_def TransactionStatusFailed_def)
next
  fix s :: string and t :: Transaction and now :: time
  assume st: "s \<in> set transaction_statuses" "txn_Status t = s"
  have c: "''CANCELLED'' \<in> set transaction_statuses"
    by (simp add: transaction_statuses_def)
  show "if (s, ''CANCELLED'') \<in> set spec_transaction_transitions
        then Transaction_MarkAsCancelled t = (None, t\<lparr>txn_Status := ''CANCELLED''\<rparr>)
        else fst (Transaction_MarkAsCancelled t) \<noteq> None \<and>
             snd (Transaction_MarkAsCancelled t) = t"
    using TransactionStatus_CanTransitionTo_table [OF st(1) c] st(2)
    by (simp add: Transaction_MarkAsCancelled_def TransactionStatusCancelled_def)
next
  fix s target :: string and t :: Transaction and now :: time
  assume st: "s \<in> set transaction_statuses" "target \<in> set transaction_statuses"
    "txn_Status t = s"
  show "if (s, target) \<in> set spec_transaction_transitions
        then Transaction_SetStatus t target now =
               (None, if target = ''COMPLETED''
                      then t\<lparr>txn_Status := target, CompletedAt := Some now\<rparr>
                      else t\<lparr>txn_Status := target\<rparr>)
        else fst (Transaction_SetStatus t target now) \<noteq> None \<and>
             snd (Transaction_SetStatus t target now) = t"
    using TransactionStatus_CanTransitionTo_table [OF st(1,2)]
      transaction_statuses_valid [OF st(2)] st(3)
    by (simp add: Transaction_SetStatus_def TransactionStatus_IsCompleted_def
        TransactionStatusCompleted_def)
qed

theorem status_transitions_follow_tables_witness:
  "Account_SetStatus example_account ''SUSPENDED'' 9 =
     (None, example_account\<lparr>acc_Status := ''SUSPENDED'', UpdatedAt := 9\<rparr>) \<and>
   fst (Account_SetStatus example_account ''ACTIVE'' 9) \<noteq> None \<and>
   snd (Account_SetStatus example_account ''ACTIVE'' 9) = example_account \<and>
   Transaction_MarkAsCompleted example_debit 9 =
     (None, example_debit\<lparr>txn_Status := ''COMPLETED'', CompletedAt := Some 9\<rparr>) \<and>
   Transaction_MarkAsCancelled example_debit = (None, example_debit\<lparr>txn_Status := ''CANCELLED''\<rparr>)"
proof -
  note acc = status_transitions_follow_tables [THEN conjunct1, rule_format]
  note txn = status_transitions_follow_tables [THEN conjunct2, THEN conjunct1, rule_format]
  have a1: "''ACTIVE'' \<in> set account_statuses" and a2: "''SUSPENDED'' \<in> set account_statuses"
    by (simp_all add: account_statuses_def)
  have p: "''PENDING'' \<in> set transaction_statuses"
    by (simp add: transaction_statuses_def)
  have s1: "acc_Status example_account = ''ACTIVE''"
    by (simp add: example_account_def)
  have s2: "txn_Status example_debit = ''PENDING''"
    by (simp add: example_debit_def)
  from acc [OF a1 a2 s1, of 9] acc [OF a1 a1 s1, of 9] txn [OF p s2, of 9] show ?thesis
    by (simp add: spec_account_transitions_def spec_transaction_transitions_def)
qed

text \<open>
  C5 as stated asks every allowed transition to update the timestamp. \<open>MarkAsFailed\<close> on a
  PENDING transaction is in the table and succeeds, and the transaction's two instants,
  CreatedAt and CompletedAt, are what they were.
\<close>

theorem MarkAsFailed_updates_no_timestamp:
  "(''PENDING'', ''FAILED'') \<in> set spec_transaction_transitions \<and>
   fst (Transaction_MarkAsFailed example_debit) = None \<and>
   txn_Status (snd (Transaction_MarkAsFailed example_debit)) = ''FAILED'' \<and>
   txn_CreatedAt (snd (Transaction_MarkAsFailed example_debit)) = txn_CreatedAt example_debit \<and>
   CompletedAt (snd (Transaction_MarkAsFailed example_debit)) = CompletedAt example_debit"
  by (simp add: spec_transaction_transitions_def Transaction_MarkAsFailed_def example_debit_def
      TransactionStatus_CanTransitionTo_def TransactionStatusPending_def
      TransactionStatusFailed_def)

section \<open>Creating transactions\<close>

text \<open>
  What the three factories do on every input: the missing account reference is named,
  equal ends of a transfer are refused, and so is an amount that is zero; every other
  amount, the negative ones too, gives a PENDING transaction carrying the generated
  identifier.
\<close>

lemma factories_validation:
  "NewDebitTransaction [] amt d r newID now =
     Inl (ValidationError ''fromAccountID'' ''from account ID is required for debit transaction'')"
  "NewCreditTransaction [] amt d r newID now =
     Inl (ValidationError ''toAccountID'' ''to account ID is required for credit transaction'')"
  "NewTransferTransaction [] toID amt d r newID now =
     Inl (ValidationError ''fromAccountID''
            ''from account ID is required for transfer transaction'')"
  "fromID \<noteq> [] \<Longrightarrow> NewTransferTransaction fromID [] amt d r newID now =
     Inl (ValidationError ''toAccountID'' ''to account ID is required for transfer transaction'')"
  "fromID \<noteq> [] \<Longrightarrow> NewTransferTransaction fromID fromID amt d r newID now =
     Inl ErrSameAccountTransfer"
  "fromID \<noteq> [] \<Longrightarrow> Money_val amt = 0 \<Longrightarrow>
     NewDebitTransaction fromID amt d r newID now = Inl ErrInvalidTransactionAmount \<and>
     NewCreditTransaction fromID amt d r newID now = Inl ErrInvalidTransactionAmount"
  "fromID \<noteq> [] \<Longrightarrow> toID \<noteq> [] \<Longrightarrow> fromID \<noteq> toID \<Longrightarrow> Money_val amt = 0 \<Longrightarrow>
     NewTransferTransaction fromID toID amt d r newID now = Inl ErrInvalidTransactionAmount"
  "fromID \<noteq> [] \<Longrightarrow> Money_val amt \<noteq> 0 \<Longrightarrow>
     (\<exists>t. NewDebitTransaction fromID amt d r newID now = Inr t \<and>
          txn_Status t = ''PENDING'' \<and> txn_ID t = newID \<and> Amount t = amt) \<and>
     (\<exists>t. NewCreditTransaction fromID amt d r newID now = Inr t \<and>
          txn_Status t = ''PENDING'' \<and> txn_ID t = newID \<and> Amount t = amt)"
  "fromID \<noteq> [] \<Longrightarrow> toID \<noteq> [] \<Longrightarrow> fromID \<noteq> toID \<Longrightarrow> Money_val amt \<noteq> 0 \<Longrightarrow>
     \<exists>t. NewTransferTransaction fromID toID amt d r newID now = Inr t \<and>
         txn_Status t = ''PENDING'' \<and> txn_ID t = newID \<and> Amount t = amt"
  by (simp_all add: NewDebitTransaction_def NewCreditTransaction_def NewTransferTransaction_def
      AccountID_IsEmpty_def Money_sign_val TransactionStatusPending_def)

text \<open>
  C4 at a negative amount. The three factories test \<open>amount.IsZero()\<close> only, so each
  returns a PENDING transaction of -50 where the specification has \<open>ErrInvalidTransactionAmount\<close>.
\<close>

theorem factories_accept_negative_amount:
  "NewDebitTransaction ''2024072912345678'' (Money (Decimal (- 50) 0)) ''rent'' ''REF001''
       ''TXN20240729143045123456'' 2 =
     Inr \<lparr>txn_ID = ''TXN20240729143045123456'', FromAccountID = Some ''2024072912345678'',
          ToAccountID = None, TransactionType = ''DEBIT'', Amount = Money (Decimal (- 50) 0),
          Description = ''rent'', Reference = ''REF001'', txn_Status = ''PENDING'',
          txn_CreatedAt = 2, CompletedAt = None\<rparr> \<and>
   NewCreditTransaction ''2024072912345678'' (Money (Decimal (- 50) 0)) ''rent'' ''REF001''
       ''TXN20240729143045123456'' 2 =
     Inr \<lparr>txn_ID = ''TXN20240729143045123456'', FromAccountID = None,
          ToAccountID = Some ''2024072912345678'', TransactionType = ''CREDIT'',
          Amount = Money (Decimal (- 50) 0),
          Description = ''rent'', Reference = ''REF001'', txn_Status = ''PENDING'',
          txn_CreatedAt = 2, CompletedAt = None\<rparr> \<and>
   NewTransferTransaction ''2024072912345678'' ''2024072987654321'' (Money (Decimal (- 50) 0))
       ''rent'' ''REF001'' ''TXN20240729143045123456'' 2 =
     Inr \<lparr>txn_ID = ''TXN20240729143045123456'', FromAccountID = Some ''2024072912345678'',
          ToAccountID = Some ''2024072987654321'', TransactionType = ''TRANSFER'',
          Amount = Money (Decimal (- 50) 0),
          Description = ''rent'', Reference = ''REF001'', txn_Status = ''PENDING'',
          txn_CreatedAt = 2, CompletedAt = None\<rparr>"
  by (simp add: NewDebitTransaction_def NewCreditTransaction_def NewTransferTransaction_def
      AccountID_IsEmpty_def Money_IsZero_def dec_IsZero_def dec_Sign_def TrimSpace_def
      isSpace_def TransactionTypeDebit_def TransactionTypeCredit_def
      TransactionTypeTransfer_def TransactionStatusPending_def)

section \<open>Transfers: the rollback and what is persisted\<close>



section \<open>Confirming twice\<close>





section \<open>Cancelling, then confirming\<close>

text \<open>
  C6. For a transaction the store holds under a well-formed identifier: \<open>Cancel\<close> succeeds
  when its status is PENDING, and then stores it with status CANCELLED and touches no
  account; in every other status \<open>Cancel\<close> fails with \<open>ErrTransactionCannotBeCancelled\<close>
  (wrapped with the status) and changes nothing. After the cancellation, with the cache
  answering and holding no confirmation result for the identifier, \<open>Confirm\<close> fails with
  \<open>ErrTransactionCannotBeConfirmed\<close> (wrapped with the status CANCELLED) and changes
  neither accounts nor transactions.
\<close>

theorem cancel_only_while_pending:
  assumes "validateTransactionID ID = None"
    and "transactionRepo_GetByID (transactions w) ID = Inr t"
  shows "if txn_Status t = ''PENDING''
         then \<exists>w'. CancelTransaction w ID = (None, w') \<and>
                transactionRepo_GetByID (transactions w') ID =
                  Inr (t\<lparr>txn_Status := ''CANCELLED''\<rparr>) \<and>
                accounts w' = accounts w \<and>
                (cache_up (cache w) \<and>
                 cache_Get_response (cache w) (idempotencyKey ID) = None \<longrightarrow>
                   fst (ConfirmTransaction w' ID ck) =
                     Inl (Errorf [] ErrTransactionCannotBeConfirmed '' in status : CANCELLED'') \<and>
                   errors_Is (Errorf [] ErrTransactionCannotBeConfirmed '' in status : CANCELLED'')
                     ErrTransactionCannotBeConfirmed \<and>
                   accounts (snd (ConfirmTransaction w' ID ck)) = accounts w \<and>
                   transactions (snd (ConfirmTransaction w' ID ck)) = transactions w')
         else CancelTransaction w ID =
                (Some (Errorf [] ErrTransactionCannotBeCancelled
                         ('' in status: '' @ txn_Status t)), w)"
proof (cases "txn_Status t = ''PENDING''")
  case True
  then have p: "txn_Status t = TransactionStatusPending"
    by (simp add: TransactionStatusPending_def)
  from CancelTransaction_pending [OF assms p] obtain w' where
    c: "CancelTransaction w ID = (None, w')" and a: "accounts w' = accounts w"
    and u: "cache_up (cache w') = cache_up (cache w)"
    and g: "cache_Get_response (cache w') (idempotencyKey ID) =
              cache_Get_response (cache w) (idempotencyKey ID)"
    and s: "transactionRepo_GetByID (transactions w') ID =
              Inr (t\<lparr>txn_Status := TransactionStatusCancelled\<rparr>)"
    by blast
  have "fst (ConfirmTransaction w' ID ck) =
          Inl (Errorf [] ErrTransactionCannotBeConfirmed '' in status : CANCELLED'') \<and>
        accounts (snd (ConfirmTransaction w' ID ck)) = accounts w \<and>
        transactions (snd (ConfirmTransaction w' ID ck)) = transactions w'"
    if "cache_up (cache w)" "cache_Get_response (cache w) (idempotencyKey ID) = None"
    using confirm_cancelled [OF assms(1) _ _ s, of ck] that u g a by simp
  with c a s True show ?thesis
    by (auto simp: TransactionStatusCancelled_def)
next
  case False
  then have "txn_Status t \<noteq> TransactionStatusPending"
    by (simp add: TransactionStatusPending_def)
  from CancelTransaction_not_pending [OF assms this] False show ?thesis
    by simp
qed

text \<open>
  The PENDING debit of 40 is cancelled; confirming it afterwards fails; cancelling it a
  second time fails as well.
\<close>

theorem cancel_only_while_pending_witness:
  "validateTransactionID ''TXN20240729143045123456'' = None \<and>
   transactionRepo_GetByID (transactions example_world) ''TXN20240729143045123456'' =
     Inr example_debit \<and>
   txn_Status example_debit = ''PENDING'' \<and>
   fst (CancelTransaction example_world ''TXN20240729143045123456'') = None \<and>
   transactionRepo_GetByID
       (transactions (snd (CancelTransaction example_world ''TXN20240729143045123456'')))
       ''TXN20240729143045123456'' =
     Inr (example_debit\<lparr>txn_Status := ''CANCELLED''\<rparr>) \<and>
   fst (ConfirmTransaction (snd (CancelTransaction example_world ''TXN20240729143045123456''))
          ''TXN20240729143045123456'' example_clock) =
     Inl (Errorf [] ErrTransactionCannotBeConfirmed '' in status : CANCELLED'') \<and>
   fst (CancelTransaction (snd (CancelTransaction example_world ''TXN20240729143045123456''))
          ''TXN20240729143045123456'') =
     Some (Errorf [] ErrTransactionCannotBeCancelled '' in status: CANCELLED'')"
proof -
  have v: "validateTransactionID ''TXN20240729143045123456'' = None"
    by (rule example_ids_valid)
  have g: "transactionRepo_GetByID (transactions example_world) ''TXN20240729143045123456'' =
      Inr example_debit"
    by (simp add: transactionRepo_GetByID_def example_defs)
  have p: "txn_Status example_debit = ''PENDING''"
    by (simp add: example_debit_def)
  have up: "cache_up (cache example_world)"
    and fresh: "cache_Get_response (cache example_world)
      (idempotencyKey ''TXN20240729143045123456'') = None"
    by (simp_all add: cache_Get_response_def example_world_def)
  from cancel_only_while_pending [OF v g, of example_clock] p up fresh
  obtain w' where c: "CancelTransaction example_world ''TXN20240729143045123456'' = (None, w')"
    and g': "transactionRepo_GetByID (transactions w') ''TXN20240729143045123456'' =
      Inr (example_debit\<lparr>txn_Status := ''CANCELLED''\<rparr>)"
    and conf: "fst (ConfirmTransaction w' ''TXN20240729143045123456'' example_clock) =
      Inl (Errorf [] ErrTransactionCannotBeConfirmed '' in status : CANCELLED'')"
    by auto
  have "txn_Status (example_debit\<lparr>txn_Status := ''CANCELLED''\<rparr>) \<noteq> ''PENDING''"
    by simp
  with cancel_only_while_pending [OF v g']
  have again: "CancelTransaction w' ''TXN20240729143045123456'' =
      (Some (Errorf [] ErrTransactionCannotBeCancelled '' in status: CANCELLED''), w')"
    by simp
  from v g p c g' conf again show ?thesis
    by simp
qed

section \<open>The lock\<close>

text \<open>
  C8. \<open>acquireDistributedLock\<close> reports the lock granted, with no error, whenever its
  cache write succeeds, whatever the cache holds under the key; and no \<open>Confirm\<close>, in any
  state, returns an error that is \<open>ErrTransactionAlreadyInProgress\<close> (or wraps it): the
  branch of \<open>ConfirmTransaction\<close> that returns it is never taken.
\<close>

theorem lock_granted_whenever_cache_writes:
  "(fst (cache_Set c key (CachedLock now)) = None \<longrightarrow>
      fst (acquireDistributedLock c key now) = (True, None)) \<and>
   (fst (ConfirmTransaction w ID ck) = Inl e \<longrightarrow> \<not> errors_Is e ErrTransactionAlreadyInProgress)"
proof (intro conjI impI)
  assume "fst (cache_Set c key (CachedLock now)) = None"
  then show "fst (acquireDistributedLock c key now) = (True, None)"
    by (cases "cache_Set c key (CachedLock now)") (simp add: acquireDistributedLock_def)
next
  assume "fst (ConfirmTransaction w ID ck) = Inl e"
  then show "\<not> errors_Is e ErrTransactionAlreadyInProgress"
    by (rule confirm_never_in_progress)
qed

text \<open>
  With the lock of the debit already held (since instant 5), the lock is granted again,
  and a \<open>Confirm\<close> of the debit goes through to COMPLETED; the \<open>Confirm\<close> of the debit of
  150 fails, with another error.
\<close>

theorem lock_granted_whenever_cache_writes_witness:
  "map_of (cache_entries (cache example_world_locked))
       (lockKey ''TXN20240729143045123456'') = Some (CachedLock 5) \<and>
   fst (cache_Set (cache example_world_locked) (lockKey ''TXN20240729143045123456'')
          (CachedLock 10)) = None \<and>
   fst (acquireDistributedLock (cache example_world_locked)
          (lockKey ''TXN20240729143045123456'') 10) = (True, None) \<and>
   fst (ConfirmTransaction example_world_locked ''TXN20240729143045123456'' example_clock) =
     Inr example_response \<and>
   fst (ConfirmTransaction example_world_locked ''TXN20240729143045654321'' example_clock) =
     Inl ErrInsufficientBalance \<and>
   \<not> errors_Is ErrInsufficientBalance ErrTransactionAlreadyInProgress"
proof -
  have held: "map_of (cache_entries (cache example_world_locked))
      (lockKey ''TXN20240729143045123456'') = Some (CachedLock 5)"
    by (simp add: example_defs lockKey_def)
  have s: "fst (cache_Set (cache example_world_locked) (lockKey ''TXN20240729143045123456'')
      (CachedLock 10)) = None"
    by (simp add: cache_Set_def example_defs)
  have c1: "fst (ConfirmTransaction example_world_locked ''TXN20240729143045123456''
      example_clock) = Inr example_response"
    by (simp add: usecase_defs status_defs money_defs example_defs example_ids_valid Let_def)
  have c2: "fst (ConfirmTransaction example_world_locked ''TXN20240729143045654321''
      example_clock) = Inl ErrInsufficientBalance"
    by (simp add: usecase_defs status_defs money_defs example_defs example_ids_valid Let_def)
  from lock_granted_whenever_cache_writes [THEN conjunct1, rule_format, OF s]
    lock_granted_whenever_cache_writes [THEN conjunct2, rule_format, OF c2] held s c1 c2
  show ?thesis
    by simp
qed

section \<open>Two confirmations of one transaction, interleaved\<close>

text \<open>
  C9 at two concurrent \<open>Confirm\<close> calls for the debit of 40 from A (balance 100), in the
  order: the first call runs up to its status check, the second call does the same, then
  each processes the transaction it loaded. Both take the lock, both find the transaction
  PENDING, both debit A and both return the COMPLETED response: A ends at 20, debited
  twice, where the specification has exactly one mutation.
\<close>

theorem concurrent_confirms_debit_twice:
  "confirm_load example_world ''TXN20240729143045123456'' 10 =
     (Proceed example_debit,
      example_world\<lparr>cache := \<lparr>cache_up = True,
        cache_entries = [(''lock:transaction:TXN20240729143045123456'', CachedLock 10)]\<rparr>\<rparr>) \<and>
   confirm_load
       (example_world\<lparr>cache := \<lparr>cache_up = True,
          cache_entries = [(''lock:transaction:TXN20240729143045123456'', CachedLock 10)]\<rparr>\<rparr>)
       ''TXN20240729143045123456'' 20 =
     (Proceed example_debit,
      example_world\<lparr>cache := \<lparr>cache_up = True,
        cache_entries = [(''lock:transaction:TXN20240729143045123456'', CachedLock 20)]\<rparr>\<rparr>) \<and>
   fst (confirm_process
          (example_world\<lparr>cache := \<lparr>cache_up = True,
             cache_entries = [(''lock:transaction:TXN20240729143045123456'', CachedLock 20)]\<rparr>\<rparr>)
          ''TXN20240729143045123456'' example_debit example_clock) = Inr example_response \<and>
   fst (confirm_process
          (snd (confirm_process
             (example_world\<lparr>cache := \<lparr>cache_up = True,
                cache_entries = [(''lock:transaction:TXN20240729143045123456'', CachedLock 20)]\<rparr>\<rparr>)
             ''TXN20240729143045123456'' example_debit example_clock))
          ''TXN20240729143045123456'' example_debit example_clock) = Inr example_response \<and>
   accounts (snd (confirm_process
          (snd (confirm_process
             (example_world\<lparr>cache := \<lparr>cache_up = True,
                cache_entries = [(''lock:transaction:TXN20240729143045123456'', CachedLock 20)]\<rparr>\<rparr>)
             ''TXN20240729143045123456'' example_debit example_clock))
          ''TXN20240729143045123456'' example_debit example_clock)) =
     [example_account\<lparr>Balance := Money (Decimal 20 0), UpdatedAt := 11\<rparr>, example_account_B]"
  by (simp add: usecase_defs status_defs money_defs example_defs example_ids_valid Let_def)

end
